theory Spec2Isabelle
  imports Complex_Main
begin

section \<open>The Fitter of astroARIADNE (code/fitter.py)\<close>

text \<open>
  A shallow embedding of the class \<^verbatim>\<open>Fitter\<close>: its property setters, \<^verbatim>\<open>initialize\<close>,
  \<^verbatim>\<open>get_ndim\<close>, \<^verbatim>\<open>_default_priors\<close>, \<^verbatim>\<open>create_priors\<close> and \<^verbatim>\<open>save\<close>.
  Python floats are read as reals, numpy arrays as lists, dictionaries as maps, and every
  exception the code can raise is a value \<open>Inl e\<close> of the result.
\<close>

subsection \<open>Python values and exceptions\<close>

text \<open>The values a caller can assign to an attribute of a Fitter.\<close>

datatype pyval =
    PNone
  | PBool bool
  | PInt int
  | PFloat real
  | PStr string
  | PList "pyval list"

text \<open>
  \<open>InputError\<close>, \<open>InstanceError\<close> and \<open>PriorError\<close> are the classes of the module
  \<^verbatim>\<open>Error\<close> (their \<^verbatim>\<open>raise_()\<close> raises them); \<open>InputError\<close> carries its message,
  \<open>PriorError\<close> the parameter and the error code. The others are Python's built-in exceptions;
  \<open>NameError\<close> carries the name that is bound nowhere in the module.
\<close>

datatype py_error =
    InputError string
  | InstanceError
  | PriorError string nat
  | NameError string
  | NotImplementedError
  | ValueError
  | ZeroDivisionError
  | IndexError
  | KeyError string
  | TypeError
  | AttributeError
  | IOError string

subsection \<open>The star, the distributions and the external collaborators\<close>

text \<open>
  The attributes of a \<^verbatim>\<open>Star\<close> that the Fitter reads. \<open>lum\<close> and \<open>rad\<close> may be
  \<^verbatim>\<open>None\<close>. The attribute \<^verbatim>\<open>dist\<close> is named \<open>dist_star\<close> here.
\<close>

record star =
  starname :: string
  get_temp :: bool
  temp :: real
  temp_e :: real
  get_lum :: bool
  lum :: "real option"
  lum_e :: real
  get_rad :: bool
  rad :: "real option"
  rad_e :: real
  get_plx :: bool
  plx :: real
  plx_e :: real
  dist_star :: real
  dist_e :: real
  Av :: real
  mags :: "real list"
  mag_errs :: "real list"

text \<open>
  The frozen scipy.stats distributions the code builds, with the arguments it passes:
  \<^verbatim>\<open>st.norm(loc, scale)\<close>, \<^verbatim>\<open>st.uniform(loc, scale)\<close>,
  \<^verbatim>\<open>st.truncnorm(a, b, loc, scale)\<close>, and the object unpickled from a file of
  pre-computed priors, named by its path.
\<close>

datatype distribution =
    Norm_dist real real
  | Uniform_dist real real
  | Truncnorm real real real real
  | Pickled string

text \<open>
  scipy's uniform distribution with \<open>loc\<close> and \<open>scale\<close> is the uniform distribution on
  \<open>[loc, loc + scale]\<close>; \<^verbatim>\<open>create_priors\<close> relies on this when it turns the bounds
  \<open>a, b\<close> of a prior file into \<^verbatim>\<open>st.uniform(loc=a, scale=b - a)\<close>. The truncated normal
  has its standardized bounds \<open>a, b\<close> mapped back by \<open>loc\<close> and \<open>scale\<close>; a normal
  distribution and an empirical table have no bounded interval recorded here.
\<close>

fun support :: "distribution \<Rightarrow> (real \<times> real) option" where
  "support (Uniform_dist loc scale) = Some (loc, loc + scale)"
| "support (Truncnorm a b loc scale) = Some (loc + a * scale, loc + b * scale)"
| "support (Norm_dist loc scale) = None"
| "support (Pickled path) = None"

type_synonym prior_map = "string \<rightharpoonup> distribution option"

text \<open>A two-dimensional numpy array of samples: one row per sample, \<open>ncols\<close> entries a row.\<close>

record matrix =
  ncols :: nat
  rows :: "real list list"

text \<open>The results object of dynesty, as far as \<^verbatim>\<open>dynesty_results\<close> reads it.\<close>

record dynesty_out =
  logwt :: "real list"
  logz :: "real list"
  logzerr :: "real list"
  samples :: matrix

text \<open>
  What the code takes from outside the class: the file system (\<open>readable\<close> for the pickled
  tables, \<open>loadtxt\<close> for the lines of a prior file, each with its three columns, and
  \<open>unpacks_empty\<close> for what numpy makes of a prior file without lines: three empty
  columns, or one empty array that does not unpack), Python's \<^verbatim>\<open>float\<close> on strings
  (\<open>pyfloat\<close>, \<open>None\<close> where it raises ValueError), numpy's \<^verbatim>\<open>log10\<close> and
  \<^verbatim>\<open>median\<close>, the isochrone estimator, \<^verbatim>\<open>build_params\<close>, \<^verbatim>\<open>log_likelihood\<close> and
  \<^verbatim>\<open>credibility_interval\<close> of the sibling modules, the \<^verbatim>\<open>'{:.4f}'\<close> formatting of a
  float, MultiNest's analyzer (equal-weighted posterior, global evidence and its error) and
  dynesty's \<^verbatim>\<open>resample_equal\<close>.
\<close>

record env =
  readable :: "string \<Rightarrow> bool"
  loadtxt :: "string \<rightharpoonup> (string \<times> string \<times> string) list"
  unpacks_empty :: bool
  pyfloat :: "string \<Rightarrow> real option"
  log10 :: "real \<Rightarrow> real"
  median :: "real list \<Rightarrow> real"
  estimate :: "string list \<Rightarrow> (string \<rightharpoonup> real \<times> real) \<Rightarrow> (real \<times> real) option"
  build_params :: "real list \<Rightarrow> int list \<Rightarrow> real list \<Rightarrow> bool \<Rightarrow> real list"
  log_likelihood :: "real list \<Rightarrow> star option \<Rightarrow> bool \<Rightarrow> real"
  credibility_interval :: "real list \<Rightarrow> real \<times> real \<times> real"
  fmt4 :: "real \<Rightarrow> string"
  analyzer :: "string \<Rightarrow> int \<Rightarrow> matrix \<times> real \<times> real"
  resample_equal :: "matrix \<Rightarrow> real list \<Rightarrow> matrix"

subsection \<open>The state of a Fitter\<close>

text \<open>
  The attributes of the object together with the module globals that \<^verbatim>\<open>initialize\<close>
  binds. The globals \<^verbatim>\<open>coordinator\<close> and \<^verbatim>\<open>fixed\<close> are the same numpy arrays as
  \<^verbatim>\<open>self.coordinator\<close> and \<^verbatim>\<open>self.fixed\<close>, so one field stands for both; the global
  \<^verbatim>\<open>order\<close> is \<open>order\<close>. The attribute \<^verbatim>\<open>_norm\<close> is \<open>norm_flag\<close>, \<^verbatim>\<open>_star\<close> is
  \<open>star_of\<close>. The coordinator holds the floats 0.0 and 1.0, read as integers. \<open>warnings\<close>
  collects the messages passed to \<^verbatim>\<open>warnings.warn\<close>, \<open>created_dirs\<close> the arguments of
  \<^verbatim>\<open>create_dir\<close>. \<^verbatim>\<open>initialize\<close> assigns \<open>order\<close>, \<open>coordinator\<close>, \<open>fixed\<close>,
  \<open>default_priors\<close>, \<open>priors\<close> and \<open>ndim\<close> before it reads them.
\<close>

record fitter =
  out_folder :: "string option"
  verbose :: bool
  star_of :: "star option"
  engine :: string
  norm_flag :: bool
  grid :: string
  estimate_logg :: bool
  priorfile :: "string option"
  order :: "string list"
  coordinator :: "int list"
  fixed :: "real list"
  default_priors :: prior_map
  priors :: prior_map
  ndim :: int
  warnings :: "string list"
  created_dirs :: "string list"

subsection \<open>Property setters\<close>

text \<open>
  \<^verbatim>\<open>
    @norm.setter
    def norm(self, norm):
        if type(norm) is not bool:
            rInputError(norm, 'norm must be True or False.').raise_()
        self._norm = norm
  \<close>
  No statement of the module binds the name \<^verbatim>\<open>rInputError\<close>, so evaluating the call raises
  NameError before any error object is built.
\<close>

fun norm_setter :: "fitter \<Rightarrow> pyval \<Rightarrow> py_error + fitter" where
  "norm_setter f (PBool b) = Inr (f\<lparr>norm_flag := b\<rparr>)"
| "norm_setter f v = Inl (NameError ''rInputError'')"

text \<open>
  \<^verbatim>\<open>
    @bma.setter
    def bma(self, bma):
        # TODO: IMPLEMENT
        raise NotImplementedError()
  \<close>
\<close>

definition bma_setter :: "fitter \<Rightarrow> pyval \<Rightarrow> py_error + fitter" where
  "bma_setter f v = Inl NotImplementedError"

text \<open>The sibling setters of the two boolean flags, which name \<^verbatim>\<open>InputError\<close> correctly.\<close>

fun estimate_logg_setter :: "fitter \<Rightarrow> pyval \<Rightarrow> py_error + fitter" where
  "estimate_logg_setter f (PBool b) = Inr (f\<lparr>estimate_logg := b\<rparr>)"
| "estimate_logg_setter f v = Inl (InputError ''estimate_logg must be True or False.'')"

fun verbose_setter :: "fitter \<Rightarrow> pyval \<Rightarrow> py_error + fitter" where
  "verbose_setter f (PBool b) = Inr (f\<lparr>verbose := b\<rparr>)"
| "verbose_setter f v = Inl (InputError ''verbose must be True or False.'')"

fun priorfile_setter :: "fitter \<Rightarrow> pyval \<Rightarrow> py_error + fitter" where
  "priorfile_setter f (PStr s) = Inr (f\<lparr>priorfile := Some s\<rparr>)"
| "priorfile_setter f PNone = Inr (f\<lparr>priorfile := None\<rparr>)"
| "priorfile_setter f v = Inl (InputError ''Priorfile must be an address or None.'')"

fun out_folder_setter :: "fitter \<Rightarrow> pyval \<Rightarrow> py_error + fitter" where
  "out_folder_setter f (PStr s) = Inr (f\<lparr>out_folder := Some s\<rparr>)"
| "out_folder_setter f PNone = Inr (f\<lparr>out_folder := None\<rparr>)"
| "out_folder_setter f v = Inl (InputError ''Output folder must be an address or None.'')"

text \<open>
  A script is a sequence of statements on one Fitter, as the example driver
  \<^verbatim>\<open>test_bma.py\<close> is (\<^verbatim>\<open>f.norm = False; ...; f.bma = True; ...; f.initialize();
  f.fit_bma()\<close>): the first statement that raises ends the run.
\<close>

fun run_script :: "(fitter \<Rightarrow> py_error + fitter) list \<Rightarrow> fitter \<Rightarrow> py_error + fitter" where
  "run_script [] f = Inr f"
| "run_script (stmt # rest) f =
     (case stmt f of Inl e \<Rightarrow> Inl e | Inr f' \<Rightarrow> run_script rest f')"

subsection \<open>The canonical order and the number of dimensions\<close>

text \<open>
  \<^verbatim>\<open>
    if not self.norm:
        order = sp.array(['teff', 'logg', 'z', 'dist', 'rad', 'Av', 'inflation'])
    else:
        order = sp.array(['teff', 'logg', 'z', 'norm', 'Av', 'inflation'])
  \<close>
\<close>

definition order_for :: "bool \<Rightarrow> string list" where
  "order_for nrm =
     (if \<not> nrm then [''teff'', ''logg'', ''z'', ''dist'', ''rad'', ''Av'', ''inflation'']
      else [''teff'', ''logg'', ''z'', ''norm'', ''Av'', ''inflation''])"

text \<open>
  \<^verbatim>\<open>
    def get_ndim(self):
        ndim = 7 if not self.norm else 6
        ndim -= self.coordinator.sum()
        return int(ndim)
  \<close>
\<close>

definition get_ndim :: "fitter \<Rightarrow> int" where
  "get_ndim f = (if \<not> norm_flag f then 7 else 6) - sum_list (coordinator f)"

subsection \<open>Default priors\<close>

text \<open>The assignment \<^verbatim>\<open>xs[-2] = v\<close> on a numpy array: IndexError on fewer than two entries.\<close>

definition set_second_last :: "'a \<Rightarrow> 'a list \<Rightarrow> py_error + 'a list" where
  "set_second_last v xs =
     (if length xs < 2 then Inl IndexError else Inr (xs[length xs - 2 := v]))"

text \<open>
  The boolean index \<^verbatim>\<open>xs[mask == 1]\<close>: the entries of \<open>xs\<close> where the mask is 1, and
  IndexError when the lengths differ.
\<close>

definition masked :: "nat list \<Rightarrow> 'a list \<Rightarrow> py_error + 'a list" where
  "masked msk xs =
     (if length xs \<noteq> length msk then Inl IndexError
      else Inr (map snd (filter (\<lambda>(m, x). m = 1) (zip msk xs))))"

definition logg_mask :: "nat list" where
  "logg_mask = [1, 1, 1, 0, 0, 0, 1, 1, 1, 0, 0, 0, 0, 0, 0, 0, 0, 0, 0, 0, 1, 1, 0, 0]"

definition logg_bands :: "string list" where
  "logg_bands = [''H'', ''J'', ''Ks'', ''G'', ''RP'', ''BP'', ''W1'', ''W2'']"

text \<open>The parameters handed to the isochrone estimator, before the magnitudes are added.\<close>

definition isochrone_params :: "env \<Rightarrow> star \<Rightarrow> (string \<rightharpoonup> real \<times> real)" where
  "isochrone_params ev s =
     (let p1 = (if get_temp s then [''Teff'' \<mapsto> (temp s, temp_e s)] else Map.empty);
          p2 = (case lum s of
                  Some l \<Rightarrow> if get_lum s then p1(''LogL'' \<mapsto> (log10 ev l, log10 ev (lum_e s))) else p1
                | None \<Rightarrow> p1);
          p3 = (case rad s of
                  Some r \<Rightarrow> if get_rad s then p2(''radius'' \<mapsto> (r, rad_e s)) else p2
                | None \<Rightarrow> p2)
      in if get_plx s then p3(''parallax'' \<mapsto> (plx s, plx_e s)) else p3)"

text \<open>
  \<^verbatim>\<open>
    for m, e, b in zip(mags, mags_e, bands):
        if m != 0:
            params[b] = (m, e)
            used_bands.append(b)
  \<close>
\<close>

fun add_bands ::
  "(real \<times> real \<times> string) list \<Rightarrow> (string \<rightharpoonup> real \<times> real) \<Rightarrow> string list
     \<Rightarrow> (string \<rightharpoonup> real \<times> real) \<times> string list" where
  "add_bands [] params used_bands = (params, used_bands)"
| "add_bands ((m, e, b) # rest) params used_bands =
     (if m \<noteq> 0 then add_bands rest (params(b \<mapsto> (m, e))) (used_bands @ [b])
      else add_bands rest params used_bands)"

text \<open>
  The log g prior: the pickled table when log g is not estimated; otherwise a normal prior
  from the estimator's value and uncertainty, and no entry when the estimator returns
  \<^verbatim>\<open>None\<close>. Reading an attribute of a star that is \<^verbatim>\<open>None\<close> raises AttributeError.
\<close>

definition logg_setup :: "env \<Rightarrow> fitter \<Rightarrow> prior_map \<Rightarrow> py_error + prior_map" where
  "logg_setup ev f defaults =
     (if \<not> estimate_logg f then
        (if readable ev ''../Datafiles/logg_ppf.pkl''
         then Inr (defaults(''logg'' \<mapsto> Some (Pickled ''../Datafiles/logg_ppf.pkl'')))
         else Inl (IOError ''../Datafiles/logg_ppf.pkl''))
      else
        (case star_of f of
           None \<Rightarrow> Inl AttributeError
         | Some s \<Rightarrow>
            (case masked logg_mask (mags s) of
               Inl e \<Rightarrow> Inl e
             | Inr ms \<Rightarrow>
                (case masked logg_mask (mag_errs s) of
                   Inl e \<Rightarrow> Inl e
                 | Inr es \<Rightarrow>
                    (case add_bands (zip ms (zip es logg_bands)) (isochrone_params ev s) [] of
                       (params, used_bands) \<Rightarrow>
                         (case estimate ev used_bands params of
                            None \<Rightarrow> Inr defaults
                          | Some (v, e) \<Rightarrow> Inr (defaults(''logg'' \<mapsto> Some (Norm_dist v e)))))))))"

text \<open>
  \<^verbatim>\<open>
    if self.star.get_temp:
        defaults['teff'] = st.norm(loc=self.star.temp, scale=self.star.temp_e)
    else:
        with closing(open('../Datafiles/teff_ppf.pkl', 'rb')) as jar:
            defaults['teff'] = pickle.load(jar)
        defaults['teff'] = teff_prior['teff']
  \<close>
  The table is loaded into \<^verbatim>\<open>defaults['teff']\<close>; the next statement reads the name
  \<^verbatim>\<open>teff_prior\<close>, which nothing in the module binds, and raises NameError.
\<close>

definition teff_setup :: "env \<Rightarrow> star \<Rightarrow> prior_map \<Rightarrow> py_error + prior_map" where
  "teff_setup ev s defaults =
     (if get_temp s then Inr (defaults(''teff'' \<mapsto> Some (Norm_dist (temp s) (temp_e s))))
      else if readable ev ''../Datafiles/teff_ppf.pkl'' then Inl (NameError ''teff_prior'')
      else Inl (IOError ''../Datafiles/teff_ppf.pkl''))"

definition radius_warning :: string where
  "radius_warning =
     ''No radius found in Gaia, using default radius prior'' @
     ''. Consider fitting the normalization constant'' @ '' instead.''"

text \<open>
  Distance and radius in physical mode (with \<^verbatim>\<open>st.uniform(0.1, 10)\<close>, that is
  \<open>loc = 0.1\<close> and \<open>scale = 10\<close>, and a warning when the star has no radius), the
  normalization constant otherwise. The result is the dictionary and the warnings issued.
\<close>

definition scale_setup :: "fitter \<Rightarrow> star \<Rightarrow> prior_map \<Rightarrow> prior_map \<times> string list" where
  "scale_setup f s defaults =
     (if \<not> norm_flag f then
        (let d1 = defaults(''dist'' \<mapsto> Some (Norm_dist (dist_star s) (dist_e s)))
         in case rad s of
              Some r \<Rightarrow> (d1(''rad'' \<mapsto> Some (Norm_dist r (rad_e s))), [])
            | None \<Rightarrow> (d1(''rad'' \<mapsto> Some (Uniform_dist 0.1 10)), [radius_warning]))
      else
        (let up = 1 / (1 / 10 ^ 20)
         in (defaults(''norm'' \<mapsto> Some (Truncnorm 0 up 0 (1 / 10 ^ 20))), [])))"

text \<open>
  \<^verbatim>\<open>
    if self.star.Av == 0.:
        self.coordinator[-2] = 1
        self.fixed[-2] = 0
        defaults['Av'] = None
    else:
        defaults['Av'] = st.uniform(loc=0, scale=self.star.Av)
  \<close>
\<close>

definition av_setup :: "fitter \<Rightarrow> star \<Rightarrow> prior_map \<Rightarrow> py_error + (prior_map \<times> fitter)" where
  "av_setup f s defaults =
     (if Av s = 0 then
        (case set_second_last 1 (coordinator f) of
           Inl e \<Rightarrow> Inl e
         | Inr c \<Rightarrow>
            (case set_second_last 0 (fixed f) of
               Inl e \<Rightarrow> Inl e
             | Inr fx \<Rightarrow> Inr (defaults(''Av'' \<mapsto> None), f\<lparr>coordinator := c, fixed := fx\<rparr>)))
      else Inr (defaults(''Av'' \<mapsto> Some (Uniform_dist 0 (Av s))), f))"

text \<open>
  The method \<^verbatim>\<open>_default_priors\<close>: log g, teff, z, the scale parameters, Av and the
  inflation term, in the order of the source. It returns the dictionary and the Fitter with
  its coordinator, fixed values and warnings updated.
\<close>

definition default_priors_fn :: "env \<Rightarrow> fitter \<Rightarrow> py_error + (prior_map \<times> fitter)" where
  "default_priors_fn ev f =
     (case logg_setup ev f Map.empty of
        Inl e \<Rightarrow> Inl e
      | Inr d1 \<Rightarrow>
         (case star_of f of
            None \<Rightarrow> Inl AttributeError
          | Some s \<Rightarrow>
             (case teff_setup ev s d1 of
                Inl e \<Rightarrow> Inl e
              | Inr d2 \<Rightarrow>
                 (case scale_setup f s (d2(''z'' \<mapsto> Some (Norm_dist (- 0.125) 0.234))) of
                    (d3, ws) \<Rightarrow>
                      (case av_setup (f\<lparr>warnings := warnings f @ ws\<rparr>) s d3 of
                         Inl e \<Rightarrow> Inl e
                       | Inr (d4, f') \<Rightarrow>
                          (let up = (5 - 0.5) / 0.5; low = (0 - 0.5) / 0.5
                           in Inr (d4(''inflation'' \<mapsto> Some (Truncnorm low up 0.5 0.5)), f')))))))"

subsection \<open>Priors from a prior file\<close>

definition param_list :: "string list" where
  "param_list = [''teff'', ''logg'', ''z'', ''dist'', ''rad'', ''norm'', ''Av'', ''inflation'']"

text \<open>\<^verbatim>\<open>str.lower\<close> on the ASCII letters, and \<^verbatim>\<open>str.split\<close> at one character.\<close>

definition lower_char :: "char \<Rightarrow> char" where
  "lower_char c =
     (case map_of (zip ''ABCDEFGHIJKLMNOPQRSTUVWXYZ'' ''abcdefghijklmnopqrstuvwxyz'') c of
        Some d \<Rightarrow> d
      | None \<Rightarrow> c)"

definition lower :: "string \<Rightarrow> string" where
  "lower s = map lower_char s"

fun split_on :: "char \<Rightarrow> string \<Rightarrow> string list" where
  "split_on c [] = [[]]"
| "split_on c (x # xs) =
     (if x = c then [] # split_on c xs
      else (case split_on c xs of
              [] \<Rightarrow> [[x]]
            | y # ys \<Rightarrow> (x # y) # ys))"

text \<open>
  \<^verbatim>\<open>sp.where(par == order)[0]\<close>: the indices at which the order holds the parameter, and
  the assignment \<^verbatim>\<open>xs[idx] = v\<close> at an array of indices (IndexError when one is out of
  bounds, nothing to do when there is none).
\<close>

definition where_eq :: "string \<Rightarrow> string list \<Rightarrow> nat list" where
  "where_eq par ord = filter (\<lambda>i. ord ! i = par) [0..<length ord]"

definition assign_at :: "nat list \<Rightarrow> 'a \<Rightarrow> 'a list \<Rightarrow> py_error + 'a list" where
  "assign_at idx v xs =
     (if list_all (\<lambda>i. i < length xs) idx then Inr (fold (\<lambda>i ys. ys[i := v]) idx xs)
      else Inl IndexError)"

text \<open>
  The body of the loop over the rows of the prior file, on the dictionary built so far.
  In the branch for \<^verbatim>\<open>truncatednormal\<close> the bounds are split, converted and standardized
  (a float division: ZeroDivisionError on \<open>sig = 0\<close>), the distribution is built, and the
  assignment \<^verbatim>\<open>priot_dict[par] = ...\<close> then reads the name \<^verbatim>\<open>priot_dict\<close>, which is not
  bound: NameError. A row of any other kind than the five leaves everything as it is.
\<close>

definition prior_row ::
  "env \<Rightarrow> fitter \<Rightarrow> prior_map \<Rightarrow> string \<times> string \<times> string \<Rightarrow> py_error + (prior_map \<times> fitter)" where
  "prior_row ev f prior_dict row =
     (case row of (par, pri, bo) \<Rightarrow>
        if par \<notin> set param_list then Inl (PriorError par 0)
        else if norm_flag f \<and> (par = ''dist'' \<or> par = ''rad'') then Inl (PriorError par 1)
        else if lower pri = ''uniform'' then
          (case split_on CHR '','' bo of
             [s_a, s_b] \<Rightarrow>
               (case pyfloat ev s_a of
                  None \<Rightarrow> Inl ValueError
                | Some a \<Rightarrow>
                   (case pyfloat ev s_b of
                      None \<Rightarrow> Inl ValueError
                    | Some b \<Rightarrow> Inr (prior_dict(par \<mapsto> Some (Uniform_dist a (b - a))), f)))
           | _ \<Rightarrow> Inl ValueError)
        else if lower pri = ''normal'' then
          (case split_on CHR '','' bo of
             [s_mu, s_sig] \<Rightarrow>
               (case pyfloat ev s_mu of
                  None \<Rightarrow> Inl ValueError
                | Some mu \<Rightarrow>
                   (case pyfloat ev s_sig of
                      None \<Rightarrow> Inl ValueError
                    | Some sig \<Rightarrow> Inr (prior_dict(par \<mapsto> Some (Norm_dist mu sig)), f)))
           | _ \<Rightarrow> Inl ValueError)
        else if lower pri = ''truncatednormal'' then
          (case split_on CHR '','' bo of
             [s_mu, s_sig, s_up, s_low] \<Rightarrow>
               (case pyfloat ev s_mu of
                  None \<Rightarrow> Inl ValueError
                | Some mu \<Rightarrow>
                   (case pyfloat ev s_sig of
                      None \<Rightarrow> Inl ValueError
                    | Some sig \<Rightarrow>
                       (case pyfloat ev s_up of
                          None \<Rightarrow> Inl ValueError
                        | Some up \<Rightarrow>
                           (case pyfloat ev s_low of
                              None \<Rightarrow> Inl ValueError
                            | Some low \<Rightarrow>
                                if sig = 0 then Inl ZeroDivisionError
                                else Inl (NameError ''priot_dict'')))))
           | _ \<Rightarrow> Inl ValueError)
        else if lower pri = ''default'' then
          (case default_priors f par of
             None \<Rightarrow> Inl (KeyError par)
           | Some d \<Rightarrow> Inr (prior_dict(par \<mapsto> d), f))
        else if lower pri = ''fixed'' then
          (let idx = where_eq par (order f)
           in case assign_at idx 1 (coordinator f) of
                Inl e \<Rightarrow> Inl e
              | Inr c \<Rightarrow>
                 (case pyfloat ev bo of
                    None \<Rightarrow> Inl ValueError
                  | Some v \<Rightarrow>
                     (case assign_at idx v (fixed f) of
                        Inl e \<Rightarrow> Inl e
                      | Inr fx \<Rightarrow> Inr (prior_dict, f\<lparr>coordinator := c, fixed := fx\<rparr>))))
        else Inr (prior_dict, f))"

fun prior_rows ::
  "env \<Rightarrow> (string \<times> string \<times> string) list \<Rightarrow> prior_map \<Rightarrow> fitter
     \<Rightarrow> py_error + (prior_map \<times> fitter)" where
  "prior_rows ev [] prior_dict f = Inr (prior_dict, f)"
| "prior_rows ev (row # rest) prior_dict f =
     (case prior_row ev f prior_dict row of
        Inl e \<Rightarrow> Inl e
      | Inr (prior_dict', f') \<Rightarrow> prior_rows ev rest prior_dict' f')"

text \<open>
  \<^verbatim>\<open>
    param, prior, bounds = sp.loadtxt(
        priorfile, usecols=[0, 1, 2], unpack=True, dtype=object)
    for par, pri, bo in zip(param, prior, bounds):
  \<close>
  From a file of two or more lines \<^verbatim>\<open>loadtxt\<close> returns the three columns, and
  \<^verbatim>\<open>zip\<close> yields the lines again. The table of a file with a single line is squeezed
  to its three fields, and \<^verbatim>\<open>zip\<close> then walks the three strings together, character by
  character, up to the end of the shortest. A file without lines gives no pass of the loop
  or a ValueError at the unpacking, as the numpy at hand has it.
\<close>

definition unpack_and_zip ::
  "env \<Rightarrow> (string \<times> string \<times> string) list \<Rightarrow> py_error + (string \<times> string \<times> string) list" where
  "unpack_and_zip ev table =
     (case table of
        [] \<Rightarrow> if unpacks_empty ev then Inr [] else Inl ValueError
      | [(param, prior, bounds)] \<Rightarrow>
          Inr (map (\<lambda>(a, b, c). ([a], [b], [c])) (zip param (zip prior bounds)))
      | line # line' # rest \<Rightarrow> Inr table)"

text \<open>
  \<^verbatim>\<open>create_priors(priorfile)\<close>: with a prior file (a non-empty string) the file is read,
  the loop runs over what \<^verbatim>\<open>zip\<close> yields, and \<^verbatim>\<open>self.priors\<close> is the dictionary
  built; without one a warning is issued and \<^verbatim>\<open>self.priors\<close> is the dictionary of
  default priors.
\<close>

definition create_priors :: "env \<Rightarrow> fitter \<Rightarrow> string option \<Rightarrow> py_error + fitter" where
  "create_priors ev f pfile =
     (case pfile of
        Some (c # cs) \<Rightarrow>
          (case loadtxt ev (c # cs) of
             None \<Rightarrow> Inl (IOError (c # cs))
           | Some table \<Rightarrow>
              (case unpack_and_zip ev table of
                 Inl e \<Rightarrow> Inl e
               | Inr rws \<Rightarrow>
                  (case prior_rows ev rws Map.empty f of
                     Inl e \<Rightarrow> Inl e
                   | Inr (prior_dict, f') \<Rightarrow> Inr (f'\<lparr>priors := prior_dict\<rparr>))))
      | _ \<Rightarrow>
          Inr (f\<lparr>priors := default_priors f,
                 warnings := warnings f @ [''No priorfile detected. Using default priors.'']\<rparr>))"

subsection \<open>Initialization\<close>

text \<open>
  \<^verbatim>\<open>initialize\<close>: the star must be present; the order is chosen by the mode; the output
  directory is created; coordinator and fixed values start as \<^verbatim>\<open>sp.zeros(npars)\<close>; the
  default priors and the priors of the prior file are built; the number of dimensions is
  computed last.
\<close>

definition initialize :: "env \<Rightarrow> fitter \<Rightarrow> py_error + fitter" where
  "initialize ev f =
     (case star_of f of
        None \<Rightarrow> Inl (InputError ''No star is detected. Please create an instance of Star.'')
      | Some s \<Rightarrow>
         (let folder = (case out_folder f of None \<Rightarrow> starname s @ ''/'' | Some d \<Rightarrow> d);
              npars = (if \<not> norm_flag f then 7 else 6);
              f1 = f\<lparr>order := order_for (norm_flag f),
                      out_folder := Some folder,
                      created_dirs := created_dirs f @ [folder],
                      coordinator := replicate npars 0,
                      fixed := replicate npars 0\<rparr>
          in case default_priors_fn ev f1 of
               Inl e \<Rightarrow> Inl e
             | Inr (defaults, f2) \<Rightarrow>
                (case create_priors ev (f2\<lparr>default_priors := defaults\<rparr>) (priorfile f2) of
                   Inl e \<Rightarrow> Inl e
                 | Inr f3 \<Rightarrow> Inr (f3\<lparr>ndim := get_ndim f3\<rparr>))))"

subsection \<open>Saving the results\<close>

text \<open>
  An entry of \<^verbatim>\<open>out['posterior_samples']\<close> is either a one-dimensional array (a column
  of the posterior samples, or the log likelihoods) or a single float: the statement
  \<^verbatim>\<open>out['posterior_samples'][param] = self.fixed[i]\<close> stores the element of the array,
  a scalar.
\<close>

datatype entry = Scalar real | Samples "real list"

text \<open>The dictionary that \<^verbatim>\<open>save\<close> pickles.\<close>

record result_record =
  lnZ :: real
  lnZerr :: real
  posterior_samples :: "string \<rightharpoonup> entry"
  fixed_out :: "real list"
  coordinator_out :: "int list"
  best_fit :: "string \<rightharpoonup> real"
  star_out :: "star option"
  engine_out :: string
  norm_out :: bool
  model_grid :: string

text \<open>The column \<^verbatim>\<open>posterior_samples[:, j]\<close>, and the slice \<^verbatim>\<open>[:, :-1]\<close>.\<close>

definition column :: "matrix \<Rightarrow> nat \<Rightarrow> py_error + real list" where
  "column m j = (if j < ncols m then Inr (map (\<lambda>r. r ! j) (rows m)) else Inl IndexError)"

definition drop_last_column :: "matrix \<Rightarrow> matrix" where
  "drop_last_column m = \<lparr>ncols = ncols m - 1, rows = map butlast (rows m)\<rparr>"

text \<open>
  \<^verbatim>\<open>multinest_results\<close> reads the equal-weighted posterior of MultiNest's analyzer without
  its last column; \<^verbatim>\<open>dynesty_results\<close> resamples dynesty's weighted samples to equal
  weight. Both return the evidence, its error and the posterior samples. Concatenating
  \<^verbatim>\<open>None\<close> with a string, and subscripting \<^verbatim>\<open>None\<close>, raise TypeError.
\<close>

definition multinest_results :: "env \<Rightarrow> fitter \<Rightarrow> py_error + (real \<times> real \<times> matrix)" where
  "multinest_results ev f =
     (case out_folder f of
        None \<Rightarrow> Inl TypeError
      | Some folder \<Rightarrow>
         (case analyzer ev (folder @ ''multinest/'' @ ''chains'') (ndim f) of
            (post, lnz, lnzer) \<Rightarrow> Inr (lnz, lnzer, drop_last_column post)))"

definition dynesty_results ::
  "env \<Rightarrow> dynesty_out option \<Rightarrow> py_error + (real \<times> real \<times> matrix)" where
  "dynesty_results ev results =
     (case results of
        None \<Rightarrow> Inl TypeError
      | Some r \<Rightarrow>
          if logz r = [] then Inl IndexError
          else
            (let weights = map (\<lambda>w. exp (w - last (logz r))) (logwt r);
                 post = resample_equal ev (samples r) weights
             in if logzerr r = [] then Inl IndexError
                else Inr (last (logz r), last (logzerr r), post)))"

definition engine_results ::
  "env \<Rightarrow> fitter \<Rightarrow> dynesty_out option \<Rightarrow> py_error + (real \<times> real \<times> matrix)" where
  "engine_results ev f results =
     (if engine f = ''multinest'' then multinest_results ev f else dynesty_results ev results)"

text \<open>
  The first loop of \<^verbatim>\<open>save\<close> over \<^verbatim>\<open>enumerate(order)\<close>, with the column counter \<open>j\<close>:
  \<^verbatim>\<open>
    if not self.coordinator[i]:
        out['posterior_samples'][param] = posterior_samples[:, j]
        j += 1
    else:
        out['posterior_samples'][param] = self.fixed[i]
  \<close>
\<close>

fun samples_loop ::
  "fitter \<Rightarrow> matrix \<Rightarrow> (nat \<times> string) list \<Rightarrow> nat \<Rightarrow> (string \<rightharpoonup> entry)
     \<Rightarrow> py_error + (string \<rightharpoonup> entry)" where
  "samples_loop f ps [] j samp = Inr samp"
| "samples_loop f ps ((i, param) # rest) j samp =
     (if length (coordinator f) \<le> i then Inl IndexError
      else if coordinator f ! i = 0 then
        (case column ps j of
           Inl e \<Rightarrow> Inl e
         | Inr col \<Rightarrow> samples_loop f ps rest (j + 1) (samp(param \<mapsto> Samples col)))
      else if length (fixed f) \<le> i then Inl IndexError
      else samples_loop f ps rest j (samp(param \<mapsto> Scalar (fixed f ! i))))"

definition tab :: string where
  "tab = [CHR 0x09]"

definition newline :: string where
  "newline = [CHR 0x0A]"

text \<open>
  The second loop: the column again for a free parameter, the best fit (the median of the
  column, or the fixed value), the line of the log file, and the entry of
  \<^verbatim>\<open>best_theta\<close>. The accumulator holds \<^verbatim>\<open>out['posterior_samples']\<close>,
  \<^verbatim>\<open>out['best_fit']\<close>, \<^verbatim>\<open>logdat\<close> and \<^verbatim>\<open>best_theta\<close>.
\<close>

fun best_fit_loop ::
  "env \<Rightarrow> fitter \<Rightarrow> matrix \<Rightarrow> (nat \<times> string) list \<Rightarrow> nat
     \<Rightarrow> (string \<rightharpoonup> entry) \<times> (string \<rightharpoonup> real) \<times> string \<times> real list
     \<Rightarrow> py_error + ((string \<rightharpoonup> entry) \<times> (string \<rightharpoonup> real) \<times> string \<times> real list)" where
  "best_fit_loop ev f ps [] j acc = Inr acc"
| "best_fit_loop ev f ps ((i, param) # rest) j (samp, bf, logdat, best_theta) =
     (if length (coordinator f) \<le> i then Inl IndexError
      else if coordinator f ! i = 0 then
        (case column ps j of
           Inl e \<Rightarrow> Inl e
         | Inr col \<Rightarrow>
            (case credibility_interval ev col of
               (m, lo, up) \<Rightarrow>
                 best_fit_loop ev f ps rest (j + 1)
                   (samp(param \<mapsto> Samples col),
                    bf(param \<mapsto> median ev col),
                    logdat @ param @ tab @ fmt4 ev (median ev col) @ tab
                      @ fmt4 ev up @ tab @ fmt4 ev lo @ newline,
                    best_theta[i := median ev col])))
      else if length (fixed f) \<le> i then Inl IndexError
      else
        best_fit_loop ev f ps rest j
          (samp,
           bf(param \<mapsto> fixed f ! i),
           logdat @ param @ tab @ fmt4 ev (fixed f ! i) @ tab @ ''FIXED'' @ newline,
           best_theta[i := fixed f ! i]))"

text \<open>
  \<^verbatim>\<open>save\<close>: the result is the dictionary written to the pickle file and the text of
  \<^verbatim>\<open>best_fit.dat\<close>. The log likelihood of every sample is computed from the row
  expanded by \<^verbatim>\<open>build_params\<close>; the best-fit likelihood from \<^verbatim>\<open>best_theta\<close>.
\<close>

definition save :: "env \<Rightarrow> fitter \<Rightarrow> dynesty_out option \<Rightarrow> py_error + (result_record \<times> string)" where
  "save ev f results =
     (case out_folder f of
        None \<Rightarrow> Inl TypeError
      | Some folder \<Rightarrow>
         (case engine_results ev f results of
            Inl e \<Rightarrow> Inl e
          | Inr (lnz, lnzer, ps) \<Rightarrow>
             (case samples_loop f ps (List.enumerate 0 (order f)) 0 Map.empty of
                Inl e \<Rightarrow> Inl e
              | Inr samp \<Rightarrow>
                 (let loglike =
                        map (\<lambda>row. log_likelihood ev
                                     (build_params ev row (coordinator f) (fixed f) (norm_flag f))
                                     (star_of f) (norm_flag f))
                            (rows ps)
                  in case best_fit_loop ev f ps (List.enumerate 0 (order f)) 0
                            (samp(''loglike'' \<mapsto> Samples loglike), Map.empty,
                             ''Parameter'' @ tab @ ''median'' @ tab @ ''upper'' @ tab @ ''lower''
                               @ newline,
                             replicate (length (order f)) 0) of
                       Inl e \<Rightarrow> Inl e
                     | Inr (samp', bf, logdat, best_theta) \<Rightarrow>
                         Inr (\<lparr>lnZ = lnz, lnZerr = lnzer,
                               posterior_samples = samp',
                               fixed_out = fixed f,
                               coordinator_out = coordinator f,
                               best_fit = bf(''likelihood'' \<mapsto>
                                 log_likelihood ev best_theta (star_of f) (norm_flag f)),
                               star_out = star_of f,
                               engine_out = engine f,
                               norm_out = norm_flag f,
                               model_grid = grid f\<rparr>,
                              logdat)))))"

text \<open>
  The column of the posterior samples that belongs to the parameter at index \<open>i\<close> of the
  order: the number of free parameters before it.
\<close>

definition free_before :: "fitter \<Rightarrow> nat \<Rightarrow> nat" where
  "free_before f i = length (filter (\<lambda>k. coordinator f ! k = 0) [0..<i])"

text \<open>
  The index \<^verbatim>\<open>-2\<close> of an array as long as the order, counted from the front.
\<close>

definition av_index :: "bool \<Rightarrow> nat" where
  "av_index nrm = length (order_for nrm) - 2"

subsection \<open>A concrete star, environment and Fitter\<close>

text \<open>
  Concrete inputs on which the functions above are evaluated: a star with a measured
  temperature, no catalog radius and extinction zero; four prior files; the posterior that
  the MultiNest analyzer hands back (three samples of the six free parameters and the log
  likelihood); stand-ins for the external functions; and a Fitter in physical mode before
  \<^verbatim>\<open>initialize\<close>.
\<close>

definition example_star :: star where
  "example_star =
     \<lparr>starname = ''NGTS-6'', get_temp = True, temp = 4730, temp_e = 44,
      get_lum = True, lum = Some 0.3, lum_e = 0.01,
      get_rad = False, rad = None, rad_e = 0,
      get_plx = True, plx = 3.2, plx_e = 0.04,
      dist_star = 311, dist_e = 4, Av = 0,
      mags = replicate 24 0, mag_errs = replicate 24 0\<rparr>"

definition example_rows :: "(string \<times> string \<times> string) list" where
  "example_rows =
     [(''norm'', ''fixed'', ''1''), (''z'', ''Fixed'', ''0.5''),
      (''teff'', ''normal'', ''5000,100'')]"

definition truncated_rows :: "(string \<times> string \<times> string) list" where
  "truncated_rows =
     [(''teff'', ''truncatednormal'', ''5000,100,6000,4000''), (''z'', ''fixed'', ''0.5'')]"

definition norm_only_rows :: "(string \<times> string \<times> string) list" where
  "norm_only_rows = [(''norm'', ''fixed'', ''1'')]"

definition norm_abc_rows :: "(string \<times> string \<times> string) list" where
  "norm_abc_rows = [(''norm'', ''fixed'', ''abc''), (''z'', ''fixed'', ''0.5'')]"

definition example_posterior :: matrix where
  "example_posterior =
     \<lparr>ncols = 7,
      rows = [[5000, 4.5, 0.1, 300, 0.7, 0.5, - 20],
              [5200, 4.4, 0.2, 310, 0.8, 0.4, - 21],
              [5100, 4.6, 0.3, 320, 0.9, 0.6, - 22]]\<rparr>"

definition example_env :: env where
  "example_env =
     \<lparr>readable = (\<lambda>path. True),
      loadtxt = [''priors.dat'' \<mapsto> example_rows, ''truncated.dat'' \<mapsto> truncated_rows,
                 ''norm_only.dat'' \<mapsto> norm_only_rows, ''norm_abc.dat'' \<mapsto> norm_abc_rows],
      unpacks_empty = False,
      pyfloat = map_of [(''1'', 1), (''0.5'', 0.5), (''5000'', 5000), (''100'', 100),
                        (''6000'', 6000), (''4000'', 4000)],
      log10 = (\<lambda>x. ln x / ln 10),
      median = (\<lambda>xs. sort xs ! (length xs div 2)),
      estimate = (\<lambda>bands params. None),
      build_params = (\<lambda>theta c fx nrm. theta),
      log_likelihood = (\<lambda>theta s nrm. - sum_list theta),
      credibility_interval = (\<lambda>xs. (0, 0, 0)),
      fmt4 = (\<lambda>x. ''0.0000''),
      analyzer = (\<lambda>path n. (example_posterior, - 10, 0.1)),
      resample_equal = (\<lambda>m w. m)\<rparr>"

definition example_fitter :: fitter where
  "example_fitter =
     \<lparr>out_folder = None, verbose = True, star_of = Some example_star, engine = ''multinest'',
      norm_flag = False, grid = ''phoenix'', estimate_logg = False,
      priorfile = None, order = [], coordinator = [], fixed = [],
      default_priors = Map.empty, priors = Map.empty, ndim = 0, warnings = [],
      created_dirs = []\<rparr>"

text \<open>The default priors of the example star, and the Fitter that \<^verbatim>\<open>initialize\<close> returns.\<close>

definition example_defaults :: prior_map where
  "example_defaults =
     [''logg'' \<mapsto> Some (Pickled ''../Datafiles/logg_ppf.pkl''),
      ''teff'' \<mapsto> Some (Norm_dist 4730 44),
      ''z'' \<mapsto> Some (Norm_dist (- 0.125) 0.234),
      ''dist'' \<mapsto> Some (Norm_dist 311 4),
      ''rad'' \<mapsto> Some (Uniform_dist 0.1 10),
      ''Av'' \<mapsto> None,
      ''inflation'' \<mapsto> Some (Truncnorm (- 1) 9 0.5 0.5)]"

definition example_initialized :: fitter where
  "example_initialized =
     \<lparr>out_folder = Some ''NGTS-6/'', verbose = True, star_of = Some example_star,
      engine = ''multinest'', norm_flag = False, grid = ''phoenix'', estimate_logg = False,
      priorfile = None,
      order = [''teff'', ''logg'', ''z'', ''dist'', ''rad'', ''Av'', ''inflation''],
      coordinator = [0, 0, 0, 0, 0, 1, 0], fixed = [0, 0, 0, 0, 0, 0, 0],
      default_priors = example_defaults, priors = example_defaults, ndim = 6,
      warnings = [radius_warning, ''No priorfile detected. Using default priors.''],
      created_dirs = [''NGTS-6/'']\<rparr>"

section \<open>Properties\<close>

subsection \<open>Evaluation at the concrete inputs\<close>

text \<open>
  The definitions that the simplifier unfolds to run the functions on the concrete star,
  environment and Fitter, and the results of these runs.
\<close>

lemmas eval_defs =
  initialize_def default_priors_fn_def logg_setup_def teff_setup_def scale_setup_def
  av_setup_def set_second_last_def create_priors_def prior_row_def param_list_def
  lower_def lower_char_def where_eq_def assign_at_def order_for_def get_ndim_def
  example_fitter_def example_env_def example_star_def example_rows_def truncated_rows_def
  norm_only_rows_def norm_abc_rows_def unpack_and_zip_def
  example_defaults_def example_initialized_def radius_warning_def Let_def

lemmas save_defs =
  save_def engine_results_def multinest_results_def drop_last_column_def column_def
  example_initialized_def example_env_def example_posterior_def Let_def

lemma lower_literals:
  "lower ''truncatednormal'' = ''truncatednormal''"
  "lower ''Fixed'' = ''fixed''"
  by (simp_all add: lower_def lower_char_def)

lemma initialize_example: "initialize example_env example_fitter = Inr example_initialized"
  by (simp add: eval_defs eval_nat_numeral)

lemma initialize_example_priorfile:
  "\<exists>f'. initialize example_env (example_fitter\<lparr>priorfile := Some ''priors.dat''\<rparr>) = Inr f'
        \<and> coordinator f' = [0, 0, 1, 0, 0, 1, 0] \<and> ndim f' = 5 \<and> fixed f' = [0, 0, 0.5, 0, 0, 0, 0]"
  by (simp add: eval_defs eval_nat_numeral upt_rec [of 0] upt_rec [of "Suc _"])

lemma save_example:
  "\<exists>out logdat. save example_env example_initialized None = Inr (out, logdat)
      \<and> posterior_samples out ''Av'' = Some (Scalar 0)
      \<and> posterior_samples out ''teff'' = Some (Samples [5000, 5200, 5100])
      \<and> best_fit out ''teff'' = Some 5100
      \<and> best_fit out ''Av'' = Some 0"
  by (simp add: save_defs)

subsection \<open>The setters\<close>

text \<open>
  C8. Assigning a non-boolean value to the norm flag should raise an InputError with the
  message that norm must be True or False. The setter, at the assignment \<^verbatim>\<open>f.norm = 1\<close>,
  raises NameError for the unbound name \<^verbatim>\<open>rInputError\<close> instead; the sibling setter of
  \<^verbatim>\<open>estimate_logg\<close> raises the InputError at the same value.
\<close>

theorem norm_setter_non_bool_raises_NameError:
  "norm_setter f (PInt 1) = Inl (NameError ''rInputError'')
   \<and> norm_setter f (PInt 1) \<noteq> Inl (InputError ''norm must be True or False.'')
   \<and> estimate_logg_setter f (PInt 1) = Inl (InputError ''estimate_logg must be True or False.'')"
  by simp

text \<open>
  C9. Assigning any value to the attribute \<^verbatim>\<open>bma\<close> raises NotImplementedError, whatever
  the Fitter and the value; hence a script that contains such an assignment, as the example
  driver does, ends with an exception and never runs the statements after it.
\<close>

theorem bma_setter_always_raises:
  "bma_setter f v = Inl NotImplementedError
   \<and> (\<exists>e. run_script (before @ (\<lambda>g. bma_setter g v) # after) f = Inl e)"
proof
  show "bma_setter f v = Inl NotImplementedError"
    by (simp add: bma_setter_def)
next
  show "\<exists>e. run_script (before @ (\<lambda>g. bma_setter g v) # after) f = Inl e"
  proof (induction before arbitrary: f)
    case Nil
    show ?case by (simp add: bma_setter_def)
  next
    case (Cons stmt before)
    show ?case
    proof (cases "stmt f")
      case (Inl e)
      then show ?thesis by simp
    next
      case (Inr f')
      with Cons.IH [of f'] show ?thesis by simp
    qed
  qed
qed

subsection \<open>Invariants of prior construction\<close>

lemma sum_list_01:
  fixes c :: "int list"
  shows "set c \<subseteq> {0, 1} \<Longrightarrow> 0 \<le> sum_list c \<and> sum_list c \<le> int (length c)"
  by (induction c) auto

lemma set_second_last_Inr:
  "set_second_last v xs = Inr ys \<Longrightarrow>
     length xs \<ge> 2 \<and> ys = xs[length xs - 2 := v]"
  by (auto simp: set_second_last_def split: if_splits)

lemma av_setup_fields:
  assumes "av_setup f s d = Inr (d', f')"
  shows "norm_flag f' = norm_flag f \<and> order f' = order f \<and> priorfile f' = priorfile f
         \<and> star_of f' = star_of f \<and> warnings f' = warnings f
         \<and> length (coordinator f') = length (coordinator f)
         \<and> length (fixed f') = length (fixed f)
         \<and> set (coordinator f') \<subseteq> insert 1 (set (coordinator f))"
  using assms set_update_subset_insert [of "coordinator f" "length (coordinator f) - 2" 1]
  by (auto simp: av_setup_def split: if_splits sum.splits dest!: set_second_last_Inr)

lemma default_priors_fn_fields:
  assumes "default_priors_fn ev f = Inr (d, f')"
  shows "norm_flag f' = norm_flag f \<and> order f' = order f \<and> priorfile f' = priorfile f
         \<and> star_of f' = star_of f
         \<and> length (coordinator f') = length (coordinator f)
         \<and> length (fixed f') = length (fixed f)
         \<and> set (coordinator f') \<subseteq> insert 1 (set (coordinator f))"
  using assms
  by (auto simp: default_priors_fn_def Let_def split: sum.splits option.splits prod.splits
           dest!: av_setup_fields)

lemma fold_update_length: "length (fold (\<lambda>i ys. ys[i := v]) idx xs) = length xs"
  by (induction idx arbitrary: xs) auto

lemma fold_update_set: "set (fold (\<lambda>i ys. ys[i := v]) idx xs) \<subseteq> insert v (set xs)"
proof (induction idx arbitrary: xs)
  case Nil
  show ?case by auto
next
  case (Cons i idx)
  have "set (fold (\<lambda>i ys. ys[i := v]) idx (xs[i := v])) \<subseteq> insert v (set (xs[i := v]))"
    by (rule Cons.IH)
  also have "\<dots> \<subseteq> insert v (set xs)"
    using set_update_subset_insert [of xs i v] by auto
  finally show ?case by simp
qed

lemma assign_at_Inr:
  "assign_at idx v xs = Inr ys \<Longrightarrow> length ys = length xs \<and> set ys \<subseteq> insert v (set xs)"
  using fold_update_set [of v idx xs]
  by (auto simp: assign_at_def fold_update_length split: if_splits)

lemma prior_row_fields:
  assumes "prior_row ev f pd row = Inr (pd', f')"
  shows "norm_flag f' = norm_flag f \<and> order f' = order f
         \<and> default_priors f' = default_priors f
         \<and> length (coordinator f') = length (coordinator f)
         \<and> length (fixed f') = length (fixed f)
         \<and> set (coordinator f') \<subseteq> insert 1 (set (coordinator f))"
  using assms
  by (auto simp: prior_row_def Let_def
           split: prod.splits if_splits list.splits option.splits sum.splits
           dest!: assign_at_Inr)

lemma prior_rows_fields:
  "prior_rows ev rws pd f = Inr (pd', f') \<Longrightarrow>
     norm_flag f' = norm_flag f \<and> order f' = order f
     \<and> length (coordinator f') = length (coordinator f)
     \<and> length (fixed f') = length (fixed f)
     \<and> set (coordinator f') \<subseteq> insert 1 (set (coordinator f))"
proof (induction rws arbitrary: pd f)
  case Nil
  then show ?case by auto
next
  case (Cons row rws)
  from Cons.prems obtain pd1 f1 where
    row: "prior_row ev f pd row = Inr (pd1, f1)" and
    rest: "prior_rows ev rws pd1 f1 = Inr (pd', f')"
    by (auto split: sum.splits)
  from prior_row_fields [OF row] Cons.IH [OF rest] show ?case
    by auto
qed

lemma create_priors_fields:
  assumes "create_priors ev f pfile = Inr f'"
  shows "norm_flag f' = norm_flag f \<and> order f' = order f
         \<and> length (coordinator f') = length (coordinator f)
         \<and> length (fixed f') = length (fixed f)
         \<and> set (coordinator f') \<subseteq> insert 1 (set (coordinator f))"
proof (cases "\<exists>c cs. pfile = Some (c # cs)")
  case True
  then obtain c cs where pf: "pfile = Some (c # cs)" by blast
  with assms obtain rws pd f1 where
    "prior_rows ev rws Map.empty f = Inr (pd, f1)" and "f' = f1\<lparr>priors := pd\<rparr>"
    by (auto simp: create_priors_def split: option.splits sum.splits)
  with prior_rows_fields [of ev rws Map.empty f pd f1] show ?thesis
    by simp
next
  case False
  with assms have "f' = f\<lparr>priors := default_priors f,
      warnings := warnings f @ [''No priorfile detected. Using default priors.'']\<rparr>"
    by (auto simp: create_priors_def split: option.splits list.splits)
  then show ?thesis by auto
qed

lemma initialize_invariant:
  assumes "initialize ev f = Inr f'"
  shows "norm_flag f' = norm_flag f \<and> order f' = order_for (norm_flag f')
         \<and> length (coordinator f') = length (order f')
         \<and> length (fixed f') = length (order f')
         \<and> set (coordinator f') \<subseteq> {0, 1}
         \<and> ndim f' = get_ndim f'"
proof -
  from assms obtain s where s: "star_of f = Some s"
    by (auto simp: initialize_def split: option.splits)
  define f1 where "f1 =
    f\<lparr>order := order_for (norm_flag f),
      out_folder := Some (case out_folder f of None \<Rightarrow> starname s @ ''/'' | Some d \<Rightarrow> d),
      created_dirs :=
        created_dirs f @ [case out_folder f of None \<Rightarrow> starname s @ ''/'' | Some d \<Rightarrow> d],
      coordinator := replicate (if \<not> norm_flag f then 7 else 6) 0,
      fixed := replicate (if \<not> norm_flag f then 7 else 6) 0\<rparr>"
  from assms s obtain defaults f2 f3 where
    dp: "default_priors_fn ev f1 = Inr (defaults, f2)" and
    cp: "create_priors ev (f2\<lparr>default_priors := defaults\<rparr>) (priorfile f2) = Inr f3" and
    f': "f' = f3\<lparr>ndim := get_ndim f3\<rparr>"
    unfolding initialize_def Let_def f1_def
    by (auto split: sum.splits)
  have one: "norm_flag f1 = norm_flag f" "order f1 = order_for (norm_flag f)"
    "length (coordinator f1) = length (order_for (norm_flag f))"
    "length (fixed f1) = length (order_for (norm_flag f))"
    "set (coordinator f1) \<subseteq> {0}"
    by (auto simp: f1_def order_for_def)
  note two = default_priors_fn_fields [OF dp]
  note three = create_priors_fields [OF cp]
  have nf: "norm_flag f3 = norm_flag f" and ord: "order f3 = order_for (norm_flag f)"
    and lc: "length (coordinator f3) = length (order_for (norm_flag f))"
    and lf: "length (fixed f3) = length (order_for (norm_flag f))"
    using one two three by auto
  have bits: "set (coordinator f3) \<subseteq> {0, 1}"
    using one(5) two three by auto
  have "get_ndim f' = get_ndim f3"
    by (simp add: f' get_ndim_def)
  then show ?thesis
    using nf ord lc lf bits by (simp add: f')
qed

lemma length_order_for: "length (order_for nrm) = (if \<not> nrm then 7 else 6)"
  by (simp add: order_for_def)

text \<open>
  C1. After \<^verbatim>\<open>initialize\<close> has completed, the number of dimensions it stored is what
  \<^verbatim>\<open>get_ndim\<close> returns, it equals the length of the canonical order (7 in physical mode,
  6 in normalized mode) minus the sum of the coordinator, and it is not negative.
\<close>

theorem ndim_after_initialize:
  assumes "initialize ev f = Inr f'"
  shows "ndim f' = get_ndim f'
         \<and> get_ndim f' = int (length (order f')) - sum_list (coordinator f')
         \<and> length (order f') = (if \<not> norm_flag f' then 7 else 6)
         \<and> 0 \<le> ndim f'"
proof -
  from initialize_invariant [OF assms] have
    ord: "order f' = order_for (norm_flag f')" and
    len: "length (coordinator f') = length (order f')" and
    bits: "set (coordinator f') \<subseteq> {0, 1}" and
    nd: "ndim f' = get_ndim f'"
    by auto
  have n: "length (order f') = (if \<not> norm_flag f' then 7 else 6)"
    by (simp add: ord length_order_for)
  have g: "get_ndim f' = int (length (order f')) - sum_list (coordinator f')"
    by (simp add: get_ndim_def n)
  from sum_list_01 [OF bits] len have "sum_list (coordinator f') \<le> int (length (order f'))"
    by simp
  with g nd have "0 \<le> ndim f'" by simp
  with nd g n show ?thesis by simp
qed

text \<open>
  The example Fitter with the prior file \<^verbatim>\<open>priors.dat\<close> (a fixed \<^verbatim>\<open>norm\<close> that
  matches nothing, a fixed \<^verbatim>\<open>z\<close>) and extinction zero: two parameters are fixed and five
  dimensions are left.
\<close>

theorem ndim_after_initialize_witness:
  "\<exists>f'. initialize example_env (example_fitter\<lparr>priorfile := Some ''priors.dat''\<rparr>) = Inr f'
        \<and> coordinator f' = [0, 0, 1, 0, 0, 1, 0]
        \<and> ndim f' = 5
        \<and> ndim f' = get_ndim f'
        \<and> get_ndim f' = int (length (order f')) - sum_list (coordinator f')
        \<and> length (order f') = (if \<not> norm_flag f' then 7 else 6)
        \<and> 0 \<le> ndim f'"
proof -
  from initialize_example_priorfile obtain f' where
    run: "initialize example_env (example_fitter\<lparr>priorfile := Some ''priors.dat''\<rparr>) = Inr f'"
    and vals: "coordinator f' = [0, 0, 1, 0, 0, 1, 0]" "ndim f' = 5"
    by blast
  from ndim_after_initialize [OF run] run vals show ?thesis
    by blast
qed

subsection \<open>Default priors\<close>

lemma default_priors_fn_Inr:
  assumes "default_priors_fn ev f = Inr (defaults, f')"
  obtains s d1 d2 d3 ws d4 where
    "star_of f = Some s"
    "logg_setup ev f Map.empty = Inr d1"
    "teff_setup ev s d1 = Inr d2"
    "scale_setup f s (d2(''z'' \<mapsto> Some (Norm_dist (- 0.125) 0.234))) = (d3, ws)"
    "av_setup (f\<lparr>warnings := warnings f @ ws\<rparr>) s d3 = Inr (d4, f')"
    "defaults = d4(''inflation'' \<mapsto> Some (Truncnorm ((0 - 0.5) / 0.5) ((5 - 0.5) / 0.5) 0.5 0.5))"
  using assms unfolding default_priors_fn_def Let_def
  by (auto split: sum.splits option.splits prod.splits)

lemma av_index_facts:
  "order_for nrm ! av_index nrm = ''Av''"
  "where_eq ''Av'' (order_for nrm) = [av_index nrm]"
  by (cases nrm; simp add: order_for_def av_index_def where_eq_def eval_nat_numeral
        upt_rec [of 0] upt_rec [of "Suc _"])+

text \<open>
  C2. For a star whose extinction is exactly zero, in either mode, when the coordinator
  and the fixed values are as long as the order and the construction of the default priors
  completes: the parameter at the index \<^verbatim>\<open>-2\<close> is \<^verbatim>\<open>Av\<close> (and it is the only index of
  \<^verbatim>\<open>Av\<close> in the order), the coordinator is 1 and the fixed value 0 there, and the entry
  of \<^verbatim>\<open>Av\<close> in the dictionary is \<^verbatim>\<open>None\<close>.
\<close>

theorem av_zero_is_fixed_by_default_priors:
  assumes run: "default_priors_fn ev f = Inr (defaults, f')"
    and star: "star_of f = Some s"
    and av: "Av s = 0"
    and lc: "length (coordinator f) = length (order_for (norm_flag f))"
    and lf: "length (fixed f) = length (order_for (norm_flag f))"
  shows "order_for (norm_flag f) ! av_index (norm_flag f) = ''Av''
         \<and> where_eq ''Av'' (order_for (norm_flag f)) = [av_index (norm_flag f)]
         \<and> coordinator f' ! av_index (norm_flag f) = 1
         \<and> fixed f' ! av_index (norm_flag f) = 0
         \<and> defaults ''Av'' = Some None"
proof -
  from run obtain s0 d1 d2 d3 ws d4 where
    s0: "star_of f = Some s0" and
    avs0: "av_setup (f\<lparr>warnings := warnings f @ ws\<rparr>) s0 d3 = Inr (d4, f')" and
    dd: "defaults = d4(''inflation'' \<mapsto> Some (Truncnorm ((0 - 0.5) / 0.5) ((5 - 0.5) / 0.5) 0.5 0.5))"
    by (rule default_priors_fn_Inr)
  from s0 star avs0 have
    avs: "av_setup (f\<lparr>warnings := warnings f @ ws\<rparr>) s d3 = Inr (d4, f')"
    by simp
  from avs av have
    c: "coordinator f' = (coordinator f)[length (coordinator f) - 2 := 1]" and
    x: "fixed f' = (fixed f)[length (fixed f) - 2 := 0]" and
    two: "2 \<le> length (coordinator f)" "2 \<le> length (fixed f)" and
    d4: "d4 = d3(''Av'' \<mapsto> None)"
    by (auto simp: av_setup_def split: sum.splits dest!: set_second_last_Inr)
  have "coordinator f' ! av_index (norm_flag f) = 1"
    using two by (simp add: c av_index_def lc [symmetric])
  moreover have "fixed f' ! av_index (norm_flag f) = 0"
    using two by (simp add: x av_index_def lf [symmetric])
  moreover have "defaults ''Av'' = Some None"
    by (simp add: dd d4)
  ultimately show ?thesis
    by (simp add: av_index_facts)
qed

text \<open>
  The example star in normalized mode: the coordinator becomes [0, 0, 0, 0, 1, 0].
\<close>

theorem av_zero_is_fixed_by_default_priors_witness:
  "\<exists>defaults f'.
      default_priors_fn example_env
        (example_fitter\<lparr>norm_flag := True, coordinator := replicate 6 0, fixed := replicate 6 0\<rparr>)
        = Inr (defaults, f')
      \<and> Av example_star = 0
      \<and> coordinator f' = [0, 0, 0, 0, 1, 0]
      \<and> order_for True ! av_index True = ''Av''
      \<and> where_eq ''Av'' (order_for True) = [av_index True]
      \<and> coordinator f' ! av_index True = 1
      \<and> fixed f' ! av_index True = 0
      \<and> defaults ''Av'' = Some None"
proof -
  let ?f = "example_fitter\<lparr>norm_flag := True, coordinator := replicate 6 0,
              fixed := replicate 6 0\<rparr>"
  have "\<exists>defaults f'. default_priors_fn example_env ?f = Inr (defaults, f')
          \<and> coordinator f' = [0, 0, 0, 0, 1, 0]"
    by (simp add: eval_defs eval_nat_numeral)
  then obtain defaults f' where
    run: "default_priors_fn example_env ?f = Inr (defaults, f')" and
    c: "coordinator f' = [0, 0, 0, 0, 1, 0]"
    by blast
  have star: "star_of ?f = Some example_star" and av: "Av example_star = 0"
    and lc: "length (coordinator ?f) = length (order_for (norm_flag ?f))"
    and lf: "length (fixed ?f) = length (order_for (norm_flag ?f))"
    by (simp_all add: example_fitter_def example_star_def order_for_def)
  from av_zero_is_fixed_by_default_priors [OF run star av lc lf] run av c
  show ?thesis
    by (simp add: example_fitter_def)
qed

text \<open>
  C7. The teff prior should be the normal distribution of the measured temperature when
  there is one, and the empirical prior of the lookup table otherwise. With a measured
  temperature it is that normal distribution; without one, the table is loaded and the next
  statement reads the unbound name \<^verbatim>\<open>teff_prior\<close>: for the example star without a measured
  temperature \<^verbatim>\<open>initialize\<close> ends with NameError, and no star without a measured
  temperature gets a teff prior.
\<close>

theorem teff_fallback_raises_NameError:
  "initialize example_env (example_fitter\<lparr>star_of := Some (example_star\<lparr>get_temp := False\<rparr>)\<rparr>)
     = Inl (NameError ''teff_prior'')
   \<and> teff_setup example_env (example_star\<lparr>get_temp := False\<rparr>) d = Inl (NameError ''teff_prior'')
   \<and> (\<exists>e. teff_setup ev (s\<lparr>get_temp := False\<rparr>) d = Inl e)
   \<and> teff_setup ev (s\<lparr>get_temp := True\<rparr>) d
       = Inr (d(''teff'' \<mapsto> Some (Norm_dist (temp s) (temp_e s))))"
  by (simp add: eval_defs eval_nat_numeral)

text \<open>
  C5 as stated: in physical mode, without a catalog radius, the support of the default
  radius prior is exactly [0.1, 10]. For the example star the prior is
  \<^verbatim>\<open>st.uniform(0.1, 10)\<close>, location 0.1 and scale 10, whose support is [0.1, 10.1].
\<close>

theorem default_radius_support_counterexample:
  "default_priors_fn example_env
     (example_fitter\<lparr>coordinator := replicate 7 0, fixed := replicate 7 0\<rparr>)
     = Inr (example_defaults,
            example_fitter\<lparr>coordinator := [0, 0, 0, 0, 0, 1, 0],
                             fixed := [0, 0, 0, 0, 0, 0, 0],
                             warnings := [radius_warning]\<rparr>)
   \<and> \<not> norm_flag example_fitter
   \<and> rad example_star = None
   \<and> example_defaults ''rad'' = Some (Some (Uniform_dist 0.1 10))
   \<and> support (Uniform_dist 0.1 10) = Some (0.1, 10.1)
   \<and> support (Uniform_dist 0.1 10) \<noteq> Some (0.1, 10)"
  by (simp add: eval_defs eval_nat_numeral)

lemma logg_setup_error:
  "logg_setup ev (f\<lparr>star_of := Some (s\<lparr>rad := r\<rparr>)\<rparr>) d = Inl e
     \<longleftrightarrow> logg_setup ev (f\<lparr>star_of := Some s\<rparr>) d = Inl e"
  by (auto simp: logg_setup_def split: sum.splits option.splits prod.splits)

lemma logg_setup_total:
  "(\<exists>d1. logg_setup ev (f\<lparr>star_of := Some (s\<lparr>rad := r\<rparr>)\<rparr>) d = Inr d1)
     \<longleftrightarrow> (\<exists>d1. logg_setup ev (f\<lparr>star_of := Some s\<rparr>) d = Inr d1)"
  by (auto simp: logg_setup_def split: sum.splits option.splits prod.splits)

lemma teff_setup_error:
  "teff_setup ev (s\<lparr>rad := r\<rparr>) d' = Inl e \<longleftrightarrow> teff_setup ev s d = Inl e"
  by (auto simp: teff_setup_def)

lemma teff_setup_total:
  "(\<exists>d2. teff_setup ev (s\<lparr>rad := r\<rparr>) d' = Inr d2) \<longleftrightarrow> (\<exists>d2. teff_setup ev s d = Inr d2)"
  by (auto simp: teff_setup_def)

lemma av_setup_error:
  "coordinator g = coordinator f \<Longrightarrow> fixed g = fixed f \<Longrightarrow> Av t = Av s \<Longrightarrow>
     av_setup g t d' = Inl e \<longleftrightarrow> av_setup f s d = Inl e"
  by (auto simp: av_setup_def split: sum.splits)

lemma default_priors_fn_error_without_radius:
  assumes star: "star_of f = Some s"
    and err: "default_priors_fn ev f = Inl e"
  shows "default_priors_fn ev (f\<lparr>star_of := Some (s\<lparr>rad := r\<rparr>)\<rparr>) = Inl e"
proof -
  let ?s = "s\<lparr>rad := r\<rparr>"
  let ?f = "f\<lparr>star_of := Some ?s\<rparr>"
  have ff: "f\<lparr>star_of := Some s\<rparr> = f" using star by simp
  show ?thesis
  proof (cases "logg_setup ev f Map.empty")
    case logg: (Inl e1)
    with err have "e1 = e" by (simp add: default_priors_fn_def)
    with logg logg_setup_error [where ev=ev and f=f and s=s and r=r and d=Map.empty and e=e] ff
    have "logg_setup ev ?f Map.empty = Inl e" by simp
    then show ?thesis by (simp add: default_priors_fn_def)
  next
    case logg: (Inr d1)
    with logg_setup_total [where ev=ev and f=f and s=s and r=r and d=Map.empty] ff obtain d1' where
      logg': "logg_setup ev ?f Map.empty = Inr d1'" by auto
    show ?thesis
    proof (cases "teff_setup ev s d1")
      case teff: (Inl e1)
      with err logg star have "e1 = e" by (simp add: default_priors_fn_def)
      with teff teff_setup_error [where ev=ev and s=s and r=r and d'=d1' and e=e and d=d1] have "teff_setup ev ?s d1' = Inl e"
        by simp
      with logg' show ?thesis by (simp add: default_priors_fn_def)
    next
      case teff: (Inr d2)
      with teff_setup_total [where ev=ev and s=s and r=r and d'=d1' and d=d1] obtain d2' where
        teff': "teff_setup ev ?s d1' = Inr d2'" by auto
      obtain d3 ws where
        sc: "scale_setup f s (d2(''z'' \<mapsto> Some (Norm_dist (- 0.125) 0.234))) = (d3, ws)"
        by (cases "scale_setup f s (d2(''z'' \<mapsto> Some (Norm_dist (- 0.125) 0.234)))")
      obtain d3' ws' where
        sc': "scale_setup ?f ?s (d2'(''z'' \<mapsto> Some (Norm_dist (- 0.125) 0.234))) = (d3', ws')"
        by (cases "scale_setup ?f ?s (d2'(''z'' \<mapsto> Some (Norm_dist (- 0.125) 0.234)))")
      from err logg star teff sc
      have "av_setup (f\<lparr>warnings := warnings f @ ws\<rparr>) s d3 = Inl e"
        by (simp add: default_priors_fn_def split: sum.splits prod.splits)
      with av_setup_error [where g="?f\<lparr>warnings := warnings ?f @ ws'\<rparr>"
          and f="f\<lparr>warnings := warnings f @ ws\<rparr>" and t="?s" and s=s and d'=d3' and e=e and d=d3]
      have "av_setup (?f\<lparr>warnings := warnings ?f @ ws'\<rparr>) ?s d3' = Inl e"
        by simp
      with logg' teff' sc' show ?thesis
        by (simp add: default_priors_fn_def)
    qed
  qed
qed

text \<open>
  C5, as amended. In physical mode, for a star with no catalog radius, the default radius
  prior is the uniform distribution with location 0.1 and scale 10, whose support is
  [0.1, 10.1]; the warning that names the fallback is issued; and the missing radius makes
  nothing fail: whenever the construction of the default priors raises an exception, it
  raises the same exception for the same star with a catalog radius.
\<close>

theorem default_radius_prior_without_catalog_radius:
  assumes phys: "\<not> norm_flag f"
    and star: "star_of f = Some s"
    and norad: "rad s = None"
  shows "(\<forall>defaults f'. default_priors_fn ev f = Inr (defaults, f') \<longrightarrow>
            defaults ''rad'' = Some (Some (Uniform_dist 0.1 10))
            \<and> radius_warning \<in> set (warnings f'))
         \<and> support (Uniform_dist 0.1 10) = Some (0.1, 10.1)
         \<and> (\<forall>e r. default_priors_fn ev f = Inl e \<longrightarrow>
               default_priors_fn ev (f\<lparr>star_of := Some (s\<lparr>rad := Some r\<rparr>)\<rparr>) = Inl e)"
proof (intro conjI allI impI)
  fix defaults f'
  assume run: "default_priors_fn ev f = Inr (defaults, f')"
  from run obtain s0 d1 d2 d3 ws d4 where
    s0: "star_of f = Some s0" and
    sc0: "scale_setup f s0 (d2(''z'' \<mapsto> Some (Norm_dist (- 0.125) 0.234))) = (d3, ws)" and
    avs: "av_setup (f\<lparr>warnings := warnings f @ ws\<rparr>) s0 d3 = Inr (d4, f')" and
    dd: "defaults = d4(''inflation'' \<mapsto>
           Some (Truncnorm ((0 - 0.5) / 0.5) ((5 - 0.5) / 0.5) 0.5 0.5))"
    by (rule default_priors_fn_Inr)
  from s0 star have "s0 = s" by simp
  with sc0 phys norad have d3: "d3 ''rad'' = Some (Some (Uniform_dist 0.1 10))"
    and ws: "ws = [radius_warning]"
    by (auto simp: scale_setup_def Let_def)
  from avs have "d4 ''rad'' = d3 ''rad''"
    by (auto simp: av_setup_def split: if_splits sum.splits)
  with d3 dd show "defaults ''rad'' = Some (Some (Uniform_dist 0.1 10))"
    by simp
  from av_setup_fields [OF avs] ws show "radius_warning \<in> set (warnings f')"
    by simp
next
  show "support (Uniform_dist 0.1 10) = Some (0.1, 10.1)"
    by simp
next
  fix e r
  assume "default_priors_fn ev f = Inl e"
  with star show "default_priors_fn ev (f\<lparr>star_of := Some (s\<lparr>rad := Some r\<rparr>)\<rparr>) = Inl e"
    by (rule default_priors_fn_error_without_radius)
qed

text \<open>
  The example star has no catalog radius.
\<close>

theorem default_radius_prior_without_catalog_radius_witness:
  "\<not> norm_flag example_fitter
   \<and> star_of (example_fitter\<lparr>coordinator := replicate 7 0, fixed := replicate 7 0\<rparr>)
       = Some example_star
   \<and> rad example_star = None
   \<and> (\<exists>defaults f'.
         default_priors_fn example_env
           (example_fitter\<lparr>coordinator := replicate 7 0, fixed := replicate 7 0\<rparr>)
           = Inr (defaults, f')
         \<and> defaults ''rad'' = Some (Some (Uniform_dist 0.1 10))
         \<and> radius_warning \<in> set (warnings f'))
   \<and> support (Uniform_dist 0.1 10) = Some (0.1, 10.1)"
proof -
  let ?f = "example_fitter\<lparr>coordinator := replicate 7 0, fixed := replicate 7 0\<rparr>"
  have phys: "\<not> norm_flag ?f" and star: "star_of ?f = Some example_star"
    and norad: "rad example_star = None"
    by (simp_all add: example_fitter_def example_star_def)
  have "\<exists>defaults f'. default_priors_fn example_env ?f = Inr (defaults, f')"
    by (simp add: eval_defs eval_nat_numeral)
  then obtain defaults f' where run: "default_priors_fn example_env ?f = Inr (defaults, f')"
    by blast
  from default_radius_prior_without_catalog_radius [OF phys star norad, of example_env] run
  have "defaults ''rad'' = Some (Some (Uniform_dist 0.1 10))
          \<and> radius_warning \<in> set (warnings f')"
    and "support (Uniform_dist 0.1 10) = Some (0.1, 10.1)"
    by blast+
  with phys star norad run show ?thesis
    by (simp add: example_fitter_def)
qed

subsection \<open>Rows of the prior file\<close>

lemma truncatednormal_row_never_stored:
  "lower pri = ''truncatednormal'' \<Longrightarrow> \<exists>e. prior_row ev f prior_dict (par, pri, bo) = Inl e"
  by (auto simp: prior_row_def split: list.splits option.splits)

text \<open>
  C6. A row of kind \<^verbatim>\<open>truncatednormal\<close> should store the truncated normal distribution
  under the key of its parameter. The row \<^verbatim>\<open>teff truncatednormal 5000,100,6000,4000\<close>
  ends with NameError for the unbound name \<^verbatim>\<open>priot_dict\<close>, and so does
  \<^verbatim>\<open>create_priors\<close> on the file of two lines that begins with this row; no row of this
  kind ever returns a dictionary.
\<close>

theorem truncatednormal_row_raises_NameError:
  "prior_row example_env example_initialized Map.empty
      (''teff'', ''truncatednormal'', ''5000,100,6000,4000'') = Inl (NameError ''priot_dict'')
   \<and> loadtxt example_env ''truncated.dat''
       = Some [(''teff'', ''truncatednormal'', ''5000,100,6000,4000''), (''z'', ''fixed'', ''0.5'')]
   \<and> create_priors example_env example_initialized (Some ''truncated.dat'')
       = Inl (NameError ''priot_dict'')
   \<and> (\<exists>e. prior_row ev f prior_dict (par, ''truncatednormal'', bo) = Inl e)"
proof (intro conjI)
  show "prior_row example_env example_initialized Map.empty
      (''teff'', ''truncatednormal'', ''5000,100,6000,4000'') = Inl (NameError ''priot_dict'')"
    by (simp add: prior_row_def param_list_def lower_literals example_initialized_def
          example_env_def)
  then show "create_priors example_env example_initialized (Some ''truncated.dat'')
       = Inl (NameError ''priot_dict'')"
    by (simp add: create_priors_def unpack_and_zip_def example_env_def truncated_rows_def)
  show "loadtxt example_env ''truncated.dat''
       = Some [(''teff'', ''truncatednormal'', ''5000,100,6000,4000''), (''z'', ''fixed'', ''0.5'')]"
    by (simp add: example_env_def truncated_rows_def)
  show "\<exists>e. prior_row ev f prior_dict (par, ''truncatednormal'', bo) = Inl e"
    by (rule truncatednormal_row_never_stored) (rule lower_literals)
qed

lemma unpack_and_zip_lines:
  "before @ after \<noteq> [] \<Longrightarrow> unpack_and_zip ev (before @ line # after) = Inr (before @ line # after)"
  by (cases before; cases after) (auto simp: unpack_and_zip_def split: list.splits)

lemma norm_fixed_row_body:
  assumes phys: "\<not> norm_flag f"
    and ord: "order f = order_for (norm_flag f)"
    and kind: "lower pri = ''fixed''"
    and val: "pyfloat ev bo = Some v"
  shows "where_eq ''norm'' (order f) = []"
    and "prior_row ev f prior_dict (''norm'', pri, bo) = Inr (prior_dict, f)"
proof -
  show none: "where_eq ''norm'' (order f) = []"
    using phys by (simp add: ord where_eq_def order_for_def eval_nat_numeral
        upt_rec [of 0] upt_rec [of "Suc _"])
  show "prior_row ev f prior_dict (''norm'', pri, bo) = Inr (prior_dict, f)"
    using phys kind val none by (simp add: prior_row_def assign_at_def param_list_def)
qed

lemma norm_fixed_row_skipped:
  assumes kind: "lower pri = ''fixed''"
    and val: "pyfloat ev bo = Some v"
  shows "\<not> norm_flag f \<Longrightarrow> order f = order_for (norm_flag f) \<Longrightarrow>
     prior_rows ev (before @ (''norm'', pri, bo) # after) prior_dict f
       = prior_rows ev (before @ after) prior_dict f"
proof (induction before arbitrary: prior_dict f)
  case Nil
  from norm_fixed_row_body(2) [OF Nil.prems kind val] show ?case
    by simp
next
  case (Cons row before)
  show ?case
  proof (cases "prior_row ev f prior_dict row")
    case (Inl e)
    then show ?thesis by simp
  next
    case (Inr res)
    obtain pd1 f1 where res: "res = (pd1, f1)" by (cases res)
    from prior_row_fields [of ev f prior_dict row pd1 f1] Inr res Cons.prems
    have "\<not> norm_flag f1" and "order f1 = order_for (norm_flag f1)"
      by simp_all
    from Cons.IH [OF this] Inr res show ?thesis
      by simp
  qed
qed

text \<open>
  C10 as stated: in physical mode a prior-file row \<^verbatim>\<open>norm fixed ...\<close> is accepted
  without any error. When the row \<^verbatim>\<open>norm fixed 1\<close> is the only line of the file, the
  fields are walked by character and the first pass raises PriorError for the name
  \<^verbatim>\<open>n\<close>; and the row \<^verbatim>\<open>norm fixed abc\<close> of a file of two lines raises ValueError at
  \<^verbatim>\<open>float(bo)\<close>.
\<close>

theorem norm_fixed_row_counterexample:
  "\<not> norm_flag example_initialized
   \<and> loadtxt example_env ''norm_only.dat'' = Some [(''norm'', ''fixed'', ''1'')]
   \<and> create_priors example_env example_initialized (Some ''norm_only.dat'')
       = Inl (PriorError ''n'' 0)
   \<and> loadtxt example_env ''norm_abc.dat''
       = Some [(''norm'', ''fixed'', ''abc''), (''z'', ''fixed'', ''0.5'')]
   \<and> create_priors example_env example_initialized (Some ''norm_abc.dat'') = Inl ValueError"
  by (simp add: eval_defs eval_nat_numeral upt_rec [of 0] upt_rec [of "Suc _"])

text \<open>
  C10, as amended. In physical mode (with the order that \<^verbatim>\<open>initialize\<close> binds), a row
  that names \<^verbatim>\<open>norm\<close> with kind \<^verbatim>\<open>fixed\<close> in any capitalisation, whose value is a float
  literal, in a prior file of two or more lines, raises nothing and changes nothing:
  \<^verbatim>\<open>norm\<close> is in the list of accepted names and occurs at no index of the order; the
  pass over the row returns the dictionary, the coordinator, the fixed values and the rest
  of the Fitter as they were; and \<^verbatim>\<open>create_priors\<close> on the file gives what the loop over
  the other rows of the file gives.
\<close>

theorem norm_fixed_row_in_physical_mode:
  assumes phys: "\<not> norm_flag f"
    and ord: "order f = order_for (norm_flag f)"
    and kind: "lower pri = ''fixed''"
    and val: "pyfloat ev bo = Some v"
    and tbl: "loadtxt ev (c # cs) = Some (before @ (''norm'', pri, bo) # after)"
    and more: "before @ after \<noteq> []"
  shows "''norm'' \<in> set param_list
         \<and> where_eq ''norm'' (order f) = []
         \<and> prior_row ev f prior_dict (''norm'', pri, bo) = Inr (prior_dict, f)
         \<and> prior_rows ev (before @ (''norm'', pri, bo) # after) prior_dict f
             = prior_rows ev (before @ after) prior_dict f
         \<and> create_priors ev f (Some (c # cs))
             = (case prior_rows ev (before @ after) Map.empty f of
                  Inl e \<Rightarrow> Inl e
                | Inr (prior_dict', f') \<Rightarrow> Inr (f'\<lparr>priors := prior_dict'\<rparr>))"
proof -
  have mem: "''norm'' \<in> set param_list"
    by (simp add: param_list_def)
  note body = norm_fixed_row_body [OF phys ord kind val]
  have skip: "prior_rows ev (before @ (''norm'', pri, bo) # after) pd f
                = prior_rows ev (before @ after) pd f" for pd
    using kind val phys ord by (rule norm_fixed_row_skipped)
  have "create_priors ev f (Some (c # cs))
          = (case prior_rows ev (before @ (''norm'', pri, bo) # after) Map.empty f of
               Inl e \<Rightarrow> Inl e
             | Inr (prior_dict', f') \<Rightarrow> Inr (f'\<lparr>priors := prior_dict'\<rparr>))"
    by (simp add: create_priors_def tbl unpack_and_zip_lines [OF more])
  with mem body skip show ?thesis
    by simp
qed

text \<open>
  The file \<^verbatim>\<open>priors.dat\<close> of three lines, which begins with the row \<^verbatim>\<open>norm fixed 1\<close>,
  on the initialized example Fitter: the row \<^verbatim>\<open>z Fixed 0.5\<close> after it fixes \<^verbatim>\<open>z\<close>.
\<close>

theorem norm_fixed_row_in_physical_mode_witness:
  "\<not> norm_flag example_initialized
   \<and> order example_initialized = order_for (norm_flag example_initialized)
   \<and> lower ''fixed'' = ''fixed''
   \<and> pyfloat example_env ''1'' = Some 1
   \<and> loadtxt example_env ''priors.dat''
       = Some ([] @ (''norm'', ''fixed'', ''1'')
                # [(''z'', ''Fixed'', ''0.5''), (''teff'', ''normal'', ''5000,100'')])
   \<and> ''norm'' \<in> set param_list
   \<and> where_eq ''norm'' (order example_initialized) = []
   \<and> prior_row example_env example_initialized Map.empty (''norm'', ''fixed'', ''1'')
       = Inr (Map.empty, example_initialized)
   \<and> create_priors example_env example_initialized (Some ''priors.dat'')
       = (case prior_rows example_env
                 ([] @ [(''z'', ''Fixed'', ''0.5''), (''teff'', ''normal'', ''5000,100'')])
                 Map.empty example_initialized of
            Inl e \<Rightarrow> Inl e
          | Inr (prior_dict', f') \<Rightarrow> Inr (f'\<lparr>priors := prior_dict'\<rparr>))
   \<and> (\<exists>f'. create_priors example_env example_initialized (Some ''priors.dat'') = Inr f'
          \<and> coordinator f' = [0, 0, 1, 0, 0, 1, 0])"
proof -
  have phys: "\<not> norm_flag example_initialized"
    and ord: "order example_initialized = order_for (norm_flag example_initialized)"
    by (simp_all add: example_initialized_def order_for_def)
  have kind: "lower ''fixed'' = ''fixed''"
    by (simp add: lower_def lower_char_def)
  have val: "pyfloat example_env ''1'' = Some 1"
    by (simp add: example_env_def)
  have tbl: "loadtxt example_env (CHR ''p'' # ''riors.dat'')
       = Some ([] @ (''norm'', ''fixed'', ''1'')
                # [(''z'', ''Fixed'', ''0.5''), (''teff'', ''normal'', ''5000,100'')])"
    by (simp add: example_env_def example_rows_def)
  have more: "[] @ [(''z'', ''Fixed'', ''0.5''), (''teff'', ''normal'', ''5000,100'')] \<noteq> []"
    by simp
  have run: "\<exists>f'. create_priors example_env example_initialized (Some ''priors.dat'') = Inr f'
          \<and> coordinator f' = [0, 0, 1, 0, 0, 1, 0]"
    by (simp add: eval_defs eval_nat_numeral upt_rec [of 0] upt_rec [of "Suc _"])
  from norm_fixed_row_in_physical_mode [OF phys ord kind val tbl more, of Map.empty]
    phys ord kind val tbl run
  show ?thesis by simp
qed

subsection \<open>The two passes of save over the order\<close>

lemma column_length: "column ps j = Inr col \<Longrightarrow> length col = length (rows ps)"
  by (auto simp: column_def split: if_splits)

lemma samples_loop_other:
  "samples_loop f ps es j samp = Inr samp' \<Longrightarrow> p \<notin> snd ` set es \<Longrightarrow> samp' p = samp p"
  by (induction es arbitrary: j samp) (auto split: if_splits sum.splits)

lemma samples_loop_at:
  "samples_loop f ps es j samp = Inr samp' \<Longrightarrow> distinct (map snd es) \<Longrightarrow> (i, p) \<in> set es \<Longrightarrow>
     (coordinator f ! i = 0 \<longrightarrow>
        (\<exists>col. samp' p = Some (Samples col) \<and> length col = length (rows ps)))
     \<and> (coordinator f ! i \<noteq> 0 \<longrightarrow> samp' p = Some (Scalar (fixed f ! i)))"
proof (induction es arbitrary: j samp)
  case Nil
  then show ?case by simp
next
  case (Cons e es)
  obtain i0 p0 where e: "e = (i0, p0)" by (cases e)
  from Cons.prems(2) e have fresh: "p0 \<notin> snd ` set es" and dist: "distinct (map snd es)"
    by auto
  show ?case
  proof (cases "coordinator f ! i0 = 0")
    case True
    with Cons.prems(1) e obtain col where
      col: "column ps j = Inr col" and
      rest: "samples_loop f ps es (j + 1) (samp(p0 \<mapsto> Samples col)) = Inr samp'"
      by (auto split: if_splits sum.splits)
    show ?thesis
    proof (cases "(i, p) = (i0, p0)")
      case same: True
      from samples_loop_other [OF rest fresh] have "samp' p0 = Some (Samples col)" by simp
      with same True column_length [OF col] show ?thesis by simp
    next
      case False
      with Cons.prems(3) e have "(i, p) \<in> set es" by auto
      from Cons.IH [OF rest dist this] show ?thesis .
    qed
  next
    case False
    with Cons.prems(1) e have
      rest: "samples_loop f ps es j (samp(p0 \<mapsto> Scalar (fixed f ! i0))) = Inr samp'"
      by (auto split: if_splits sum.splits)
    show ?thesis
    proof (cases "(i, p) = (i0, p0)")
      case same: True
      from samples_loop_other [OF rest fresh] have "samp' p0 = Some (Scalar (fixed f ! i0))"
        by simp
      with same False show ?thesis by simp
    next
      case diff: False
      with Cons.prems(3) e have "(i, p) \<in> set es" by auto
      from Cons.IH [OF rest dist this] show ?thesis .
    qed
  qed
qed

lemma best_fit_loop_other:
  "best_fit_loop ev f ps es j (samp, bf, ld, th) = Inr (samp', bf', ld', th') \<Longrightarrow>
     length th' = length th
     \<and> (\<forall>p. p \<notin> snd ` set es \<longrightarrow> samp' p = samp p \<and> bf' p = bf p)
     \<and> (\<forall>i. i \<notin> fst ` set es \<longrightarrow> th' ! i = th ! i)"
proof (induction es arbitrary: j samp bf ld th)
  case Nil
  then show ?case by simp
next
  case (Cons e es)
  obtain i0 p0 where e: "e = (i0, p0)" by (cases e)
  from Cons.prems e obtain j1 samp1 bf1 ld1 th1 where
    rest: "best_fit_loop ev f ps es j1 (samp1, bf1, ld1, th1) = Inr (samp', bf', ld', th')" and
    len: "length th1 = length th" and
    keep: "\<forall>p. p \<noteq> p0 \<longrightarrow> samp1 p = samp p \<and> bf1 p = bf p" and
    keepi: "\<forall>i. i \<noteq> i0 \<longrightarrow> th1 ! i = th ! i"
    by (auto split: if_splits sum.splits prod.splits)
  from Cons.IH [OF rest] len keep keepi e show ?case
    by auto
qed

lemma best_fit_loop_samp:
  "best_fit_loop ev f ps es j (samp, bf, ld, th) = Inr (samp', bf', ld', th') \<Longrightarrow>
   distinct (map snd es) \<Longrightarrow> (i, p) \<in> set es \<Longrightarrow>
     (coordinator f ! i = 0 \<longrightarrow>
        (\<exists>col. samp' p = Some (Samples col) \<and> length col = length (rows ps)))
     \<and> (coordinator f ! i \<noteq> 0 \<longrightarrow> samp' p = samp p)"
proof (induction es arbitrary: j samp bf ld th)
  case Nil
  then show ?case by simp
next
  case (Cons e es)
  obtain i0 p0 where e: "e = (i0, p0)" by (cases e)
  from Cons.prems(2) e have fresh: "p0 \<notin> snd ` set es" and dist: "distinct (map snd es)"
    by auto
  from Cons.prems(1) e obtain j1 samp1 bf1 ld1 th1 where
    rest: "best_fit_loop ev f ps es j1 (samp1, bf1, ld1, th1) = Inr (samp', bf', ld', th')" and
    free: "coordinator f ! i0 = 0 \<longrightarrow>
             (\<exists>col. column ps j = Inr col \<and> samp1 = samp(p0 \<mapsto> Samples col))" and
    fixd: "coordinator f ! i0 \<noteq> 0 \<longrightarrow> samp1 = samp" and
    keep: "\<forall>q. q \<noteq> p0 \<longrightarrow> samp1 q = samp q"
    by (auto split: if_splits sum.splits prod.splits)
  show ?case
  proof (cases "(i, p) = (i0, p0)")
    case True
    from best_fit_loop_other [OF rest] fresh have eq: "samp' p0 = samp1 p0" by blast
    show ?thesis
    proof (cases "coordinator f ! i0 = 0")
      case free0: True
      with free obtain col where "column ps j = Inr col" and "samp1 = samp(p0 \<mapsto> Samples col)"
        by blast
      with eq True free0 column_length [of ps j col] show ?thesis by simp
    next
      case False
      with fixd eq True show ?thesis by simp
    qed
  next
    case False
    with Cons.prems(3) e have mem: "(i, p) \<in> set es" by auto
    with fresh have "p \<noteq> p0" by force
    with keep Cons.IH [OF rest dist mem] show ?thesis by simp
  qed
qed

lemma best_fit_loop_at:
  "best_fit_loop ev f ps es j (samp, bf, ld, th) = Inr (samp', bf', ld', th') \<Longrightarrow>
   distinct (map snd es) \<Longrightarrow> distinct (map fst es) \<Longrightarrow> k < length es \<Longrightarrow> es ! k = (i, p) \<Longrightarrow>
   i < length th \<Longrightarrow>
     (coordinator f ! i = 0 \<longrightarrow>
        (\<exists>col. column ps (j + length (filter (\<lambda>x. coordinator f ! fst x = 0) (take k es))) = Inr col
               \<and> samp' p = Some (Samples col)
               \<and> bf' p = Some (median ev col) \<and> th' ! i = median ev col))
     \<and> (coordinator f ! i \<noteq> 0 \<longrightarrow> bf' p = Some (fixed f ! i) \<and> th' ! i = fixed f ! i)"
proof (induction es arbitrary: j samp bf ld th k)
  case Nil
  then show ?case by simp
next
  case (Cons e es)
  obtain i0 p0 where e: "e = (i0, p0)" by (cases e)
  from Cons.prems(2,3) e have fresh: "p0 \<notin> snd ` set es" "i0 \<notin> fst ` set es"
    and dist: "distinct (map snd es)" "distinct (map fst es)"
    by auto
  from Cons.prems(1) e obtain j1 samp1 bf1 ld1 th1 where
    rest: "best_fit_loop ev f ps es j1 (samp1, bf1, ld1, th1) = Inr (samp', bf', ld', th')" and
    len: "length th1 = length th" and
    free: "coordinator f ! i0 = 0 \<longrightarrow>
             j1 = j + 1 \<and> (\<exists>col. column ps j = Inr col \<and> samp1 p0 = Some (Samples col)
                \<and> bf1 p0 = Some (median ev col) \<and> th1 = th[i0 := median ev col])" and
    fixd: "coordinator f ! i0 \<noteq> 0 \<longrightarrow>
             j1 = j \<and> bf1 p0 = Some (fixed f ! i0) \<and> th1 = th[i0 := fixed f ! i0]"
    by (auto split: if_splits sum.splits prod.splits)
  show ?case
  proof (cases k)
    case 0
    with Cons.prems(5) e have ip: "i = i0" "p = p0" by auto
    from best_fit_loop_other [OF rest] fresh
    have same: "samp' p0 = samp1 p0" "bf' p0 = bf1 p0" "th' ! i0 = th1 ! i0"
      by blast+
    from Cons.prems(6) ip have "i0 < length th" by simp
    with same free fixd ip 0 show ?thesis
      by auto
  next
    case (Suc k')
    with Cons.prems(4,5) have k': "k' < length es" and at: "es ! k' = (i, p)"
      by auto
    from Cons.prems(6) len have il: "i < length th1" by simp
    have count: "j + length (filter (\<lambda>x. coordinator f ! fst x = 0) (take k (e # es)))
                 = j1 + length (filter (\<lambda>x. coordinator f ! fst x = 0) (take k' es))"
      using Suc e free fixd by auto
    from Cons.IH [OF rest dist k' at il] count show ?thesis
      by simp
  qed
qed

lemma enumerate_facts:
  "map fst (List.enumerate 0 xs) = [0..<length xs]"
  "map snd (List.enumerate 0 xs) = xs"
  "k < length xs \<Longrightarrow> List.enumerate 0 xs ! k = (k, xs ! k)"
  by (simp_all add: enumerate_eq_zip)

lemma filter_fst_length:
  "length (filter (\<lambda>x. P (fst x)) ys) = length (filter P (map fst ys))"
  by (induction ys) auto

lemma free_before_enumerate:
  assumes "k \<le> length xs"
  shows "length (filter (\<lambda>x. coordinator f ! fst x = 0) (take k (List.enumerate 0 xs)))
         = free_before f k"
proof -
  have m: "map fst (take k (List.enumerate 0 xs)) = [0..<k]"
    using assms by (simp add: take_map [symmetric] enumerate_facts(1))
  have "length (filter (\<lambda>x. coordinator f ! fst x = 0) (take k (List.enumerate 0 xs)))
        = length (filter (\<lambda>i. coordinator f ! i = 0) (map fst (take k (List.enumerate 0 xs))))"
    by (rule filter_fst_length)
  also have "\<dots> = free_before f k"
    by (simp only: m free_before_def)
  finally show ?thesis .
qed

lemma order_for_facts:
  "distinct (order_for nrm)" "''likelihood'' \<notin> set (order_for nrm)"
  "''loglike'' \<notin> set (order_for nrm)"
  by (simp_all add: order_for_def)

lemma save_Inr:
  assumes "save ev f results = Inr (out, logdat)"
  obtains lnz lnzer ps samp samp' bf best_theta where
    "engine_results ev f results = Inr (lnz, lnzer, ps)"
    "samples_loop f ps (List.enumerate 0 (order f)) 0 Map.empty = Inr samp"
    "best_fit_loop ev f ps (List.enumerate 0 (order f)) 0
       (samp(''loglike'' \<mapsto> Samples (map (\<lambda>row. log_likelihood ev
            (build_params ev row (coordinator f) (fixed f) (norm_flag f))
            (star_of f) (norm_flag f)) (rows ps))), Map.empty,
        ''Parameter'' @ tab @ ''median'' @ tab @ ''upper'' @ tab @ ''lower'' @ newline,
        replicate (length (order f)) 0) = Inr (samp', bf, logdat, best_theta)"
    "posterior_samples out = samp'"
    "best_fit out = bf(''likelihood'' \<mapsto> log_likelihood ev best_theta (star_of f) (norm_flag f))"
  using assms unfolding save_def Let_def
  by (auto split: option.splits sum.splits prod.splits)

text \<open>
  C3. In the record that \<^verbatim>\<open>save\<close> builds for an initialized Fitter, the best fit of
  every free parameter (coordinator 0) is the median of its column of the equal-weight
  posterior samples (the column numbered by the free parameters before it, which is also
  its entry of the posterior samples), the best fit of every fixed parameter is its fixed
  value, and the best-fit likelihood is the log likelihood at the vector of these values.
\<close>

theorem save_best_fit_is_median:
  assumes init: "initialize ev f0 = Inr f"
    and sv: "save ev f results = Inr (out, logdat)"
  shows "\<exists>lnz lnzer ps best_theta.
           engine_results ev f results = Inr (lnz, lnzer, ps)
           \<and> length best_theta = length (order f)
           \<and> (\<forall>i<length (order f).
                (coordinator f ! i = 0 \<longrightarrow>
                   (\<exists>col. column ps (free_before f i) = Inr col
                      \<and> posterior_samples out (order f ! i) = Some (Samples col)
                      \<and> best_fit out (order f ! i) = Some (median ev col)
                      \<and> best_theta ! i = median ev col))
                \<and> (coordinator f ! i \<noteq> 0 \<longrightarrow>
                      best_fit out (order f ! i) = Some (fixed f ! i)
                      \<and> best_theta ! i = fixed f ! i))
           \<and> best_fit out ''likelihood''
               = Some (log_likelihood ev best_theta (star_of f) (norm_flag f))"
proof -
  from initialize_invariant [OF init] have ord: "order f = order_for (norm_flag f)"
    by simp
  from sv obtain lnz lnzer ps samp samp' bf best_theta where
    er: "engine_results ev f results = Inr (lnz, lnzer, ps)" and
    bl: "best_fit_loop ev f ps (List.enumerate 0 (order f)) 0
       (samp(''loglike'' \<mapsto> Samples (map (\<lambda>row. log_likelihood ev
            (build_params ev row (coordinator f) (fixed f) (norm_flag f))
            (star_of f) (norm_flag f)) (rows ps))), Map.empty,
        ''Parameter'' @ tab @ ''median'' @ tab @ ''upper'' @ tab @ ''lower'' @ newline,
        replicate (length (order f)) 0) = Inr (samp', bf, logdat, best_theta)" and
    ps: "posterior_samples out = samp'" and
    bf: "best_fit out = bf(''likelihood'' \<mapsto>
           log_likelihood ev best_theta (star_of f) (norm_flag f))"
    by (rule save_Inr)
  have d1: "distinct (map snd (List.enumerate 0 (order f)))"
    by (simp add: enumerate_facts(2) ord order_for_facts(1))
  have d2: "distinct (map fst (List.enumerate 0 (order f)))"
    by (simp add: enumerate_facts(1))
  from best_fit_loop_other [OF bl] have len: "length best_theta = length (order f)"
    by simp
  have each: "(coordinator f ! i = 0 \<longrightarrow>
                   (\<exists>col. column ps (free_before f i) = Inr col
                      \<and> posterior_samples out (order f ! i) = Some (Samples col)
                      \<and> best_fit out (order f ! i) = Some (median ev col)
                      \<and> best_theta ! i = median ev col))
                \<and> (coordinator f ! i \<noteq> 0 \<longrightarrow>
                      best_fit out (order f ! i) = Some (fixed f ! i)
                      \<and> best_theta ! i = fixed f ! i)"
    if i: "i < length (order f)" for i
  proof -
    have k: "i < length (List.enumerate 0 (order f))" using i by simp
    have at: "List.enumerate 0 (order f) ! i = (i, order f ! i)"
      using i by (rule enumerate_facts(3))
    have il: "i < length (replicate (length (order f)) (0::real))" using i by simp
    have cnt: "0 + length (filter (\<lambda>x. coordinator f ! fst x = 0)
                 (take i (List.enumerate 0 (order f)))) = free_before f i"
      using i by (simp add: free_before_enumerate)
    have "order f ! i \<in> set (order f)" using i by simp
    with ord order_for_facts(2) have ne: "order f ! i \<noteq> ''likelihood''" by metis
    from best_fit_loop_at [OF bl d1 d2 k at il] show ?thesis
      unfolding cnt using ne by (simp add: ps bf)
  qed
  have lk: "best_fit out ''likelihood''
              = Some (log_likelihood ev best_theta (star_of f) (norm_flag f))"
    by (simp add: bf)
  from er len each lk show ?thesis
    by blast
qed

text \<open>
  The initialized example Fitter with three posterior samples: the best fit of
  \<^verbatim>\<open>teff\<close> is 5100, the median of 5000, 5200 and 5100, and the best fit of the fixed
  \<^verbatim>\<open>Av\<close> is 0.
\<close>

theorem save_best_fit_is_median_witness:
  "\<exists>out logdat lnz lnzer ps best_theta.
      initialize example_env example_fitter = Inr example_initialized
      \<and> save example_env example_initialized None = Inr (out, logdat)
      \<and> best_fit out ''teff'' = Some 5100
      \<and> best_fit out ''Av'' = Some 0
      \<and> engine_results example_env example_initialized None = Inr (lnz, lnzer, ps)
      \<and> length best_theta = length (order example_initialized)
      \<and> (\<forall>i<length (order example_initialized).
            (coordinator example_initialized ! i = 0 \<longrightarrow>
               (\<exists>col. column ps (free_before example_initialized i) = Inr col
                  \<and> posterior_samples out (order example_initialized ! i) = Some (Samples col)
                  \<and> best_fit out (order example_initialized ! i) = Some (median example_env col)
                  \<and> best_theta ! i = median example_env col))
            \<and> (coordinator example_initialized ! i \<noteq> 0 \<longrightarrow>
                  best_fit out (order example_initialized ! i) = Some (fixed example_initialized ! i)
                  \<and> best_theta ! i = fixed example_initialized ! i))
      \<and> best_fit out ''likelihood''
           = Some (log_likelihood example_env best_theta (star_of example_initialized)
                     (norm_flag example_initialized))"
proof -
  from save_example obtain out logdat where
    sv: "save example_env example_initialized None = Inr (out, logdat)" and
    vals: "best_fit out ''teff'' = Some 5100" "best_fit out ''Av'' = Some 0"
    by blast
  from save_best_fit_is_median [OF initialize_example sv] initialize_example sv vals
  show ?thesis
    by blast
qed

text \<open>
  C4 as stated: the entry of a fixed parameter in the posterior samples is the fixed value
  broadcast to a sequence as long as the sample count. For the initialized example Fitter
  \<^verbatim>\<open>Av\<close> is fixed (coordinator 1 at index 5), there are three samples, and the entry of
  \<^verbatim>\<open>Av\<close> is the single float 0, not a sequence of three values, while the entry of the
  free \<^verbatim>\<open>teff\<close> is its three samples.
\<close>

theorem fixed_entry_broadcast_counterexample:
  "initialize example_env example_fitter = Inr example_initialized
   \<and> coordinator example_initialized ! 5 = 1
   \<and> order example_initialized ! 5 = ''Av''
   \<and> \<not> isl (save example_env example_initialized None)
   \<and> posterior_samples (fst (projr (save example_env example_initialized None))) ''Av''
       = Some (Scalar 0)
   \<and> posterior_samples (fst (projr (save example_env example_initialized None))) ''Av''
       \<noteq> Some (Samples [0, 0, 0])
   \<and> posterior_samples (fst (projr (save example_env example_initialized None))) ''teff''
       = Some (Samples [5000, 5200, 5100])"
proof -
  from save_example obtain out logdat where
    "save example_env example_initialized None = Inr (out, logdat)"
    "posterior_samples out ''Av'' = Some (Scalar 0)"
    "posterior_samples out ''teff'' = Some (Samples [5000, 5200, 5100])"
    by blast
  moreover have "coordinator example_initialized ! 5 = 1" "order example_initialized ! 5 = ''Av''"
    by (simp_all add: example_initialized_def eval_nat_numeral)
  ultimately show ?thesis
    using initialize_example by simp
qed

text \<open>
  C4, as amended. In the record that \<^verbatim>\<open>save\<close> builds for an initialized Fitter, every
  fixed parameter is present in the posterior samples and its entry is the fixed value
  itself, a single float; the entry of every free parameter is a sequence with one value
  for each posterior sample.
\<close>

theorem save_fixed_entry_is_scalar:
  assumes init: "initialize ev f0 = Inr f"
    and sv: "save ev f results = Inr (out, logdat)"
  shows "\<exists>lnz lnzer ps.
           engine_results ev f results = Inr (lnz, lnzer, ps)
           \<and> (\<forall>i<length (order f).
                (coordinator f ! i \<noteq> 0 \<longrightarrow>
                   posterior_samples out (order f ! i) = Some (Scalar (fixed f ! i)))
                \<and> (coordinator f ! i = 0 \<longrightarrow>
                      (\<exists>col. posterior_samples out (order f ! i) = Some (Samples col)
                         \<and> length col = length (rows ps))))"
proof -
  from initialize_invariant [OF init] have ord: "order f = order_for (norm_flag f)"
    by simp
  from sv obtain lnz lnzer ps samp samp' bf best_theta where
    er: "engine_results ev f results = Inr (lnz, lnzer, ps)" and
    sl: "samples_loop f ps (List.enumerate 0 (order f)) 0 Map.empty = Inr samp" and
    bl: "best_fit_loop ev f ps (List.enumerate 0 (order f)) 0
       (samp(''loglike'' \<mapsto> Samples (map (\<lambda>row. log_likelihood ev
            (build_params ev row (coordinator f) (fixed f) (norm_flag f))
            (star_of f) (norm_flag f)) (rows ps))), Map.empty,
        ''Parameter'' @ tab @ ''median'' @ tab @ ''upper'' @ tab @ ''lower'' @ newline,
        replicate (length (order f)) 0) = Inr (samp', bf, logdat, best_theta)" and
    ps: "posterior_samples out = samp'"
    by (rule save_Inr)
  have d1: "distinct (map snd (List.enumerate 0 (order f)))"
    by (simp add: enumerate_facts(2) ord order_for_facts(1))
  have each: "(coordinator f ! i \<noteq> 0 \<longrightarrow>
                   posterior_samples out (order f ! i) = Some (Scalar (fixed f ! i)))
                \<and> (coordinator f ! i = 0 \<longrightarrow>
                      (\<exists>col. posterior_samples out (order f ! i) = Some (Samples col)
                         \<and> length col = length (rows ps)))"
    if i: "i < length (order f)" for i
  proof -
    have "List.enumerate 0 (order f) ! i = (i, order f ! i)"
      using i by (rule enumerate_facts(3))
    moreover have "i < length (List.enumerate 0 (order f))" using i by simp
    ultimately have mem: "(i, order f ! i) \<in> set (List.enumerate 0 (order f))"
      by (metis nth_mem)
    have "order f ! i \<in> set (order f)" using i by simp
    with ord order_for_facts(3) have ne: "order f ! i \<noteq> ''loglike''" by metis
    from samples_loop_at [OF sl d1 mem] best_fit_loop_samp [OF bl d1 mem] ne
    show ?thesis
      by (simp add: ps)
  qed
  from er each show ?thesis by blast
qed

text \<open>
  The initialized example Fitter.
\<close>

theorem save_fixed_entry_is_scalar_witness:
  "\<exists>out logdat lnz lnzer ps.
      initialize example_env example_fitter = Inr example_initialized
      \<and> save example_env example_initialized None = Inr (out, logdat)
      \<and> engine_results example_env example_initialized None = Inr (lnz, lnzer, ps)
      \<and> (\<forall>i<length (order example_initialized).
            (coordinator example_initialized ! i \<noteq> 0 \<longrightarrow>
               posterior_samples out (order example_initialized ! i)
                 = Some (Scalar (fixed example_initialized ! i)))
            \<and> (coordinator example_initialized ! i = 0 \<longrightarrow>
                  (\<exists>col. posterior_samples out (order example_initialized ! i) = Some (Samples col)
                     \<and> length col = length (rows ps))))"
proof -
  from save_example obtain out logdat where
    sv: "save example_env example_initialized None = Inr (out, logdat)"
    by blast
  from save_fixed_entry_is_scalar [OF initialize_example sv] initialize_example sv
  show ?thesis
    by blast
qed

end
